theory Spec2Isabelle
  imports Complex_Main
begin

section \<open>Data model\<close>

text \<open>
  The source is Python. A float is modelled by a real number: the real a finite double
  denotes, or the decimal it is written as in the source. Comparisons are those of the
  reals. Arithmetic on floats is IEEE 754 binary64 arithmetic: every operation reads its
  operands as the doubles nearest to them and rounds its exact result to the nearest
  double, ties to even (\<open>round_double\<close>, \<open>fmul\<close>, \<open>fadd\<close>, \<open>fsub\<close>, \<open>fdiv\<close>). NaN, the
  infinities and overflow are outside the model. Python's unbounded \<open>int\<close> is \<open>int\<close>, a
  \<open>str\<close> is \<open>string\<close>, a \<open>dict\<close> whose order is never observed is a map, and every
  reading of the clock or of the operating system is an explicit input (the record
  \<open>world\<close>).
\<close>

text \<open>The binary exponent of a positive real, found by halving or doubling it into
  \<open>[1, 2)\<close>; the fuel covers the whole range of the doubles.\<close>

fun exp_fuel :: "nat \<Rightarrow> real \<Rightarrow> int" where
  "exp_fuel 0 a = 0"
| "exp_fuel (Suc n) a =
     (if 2 \<le> a then exp_fuel n (a / 2) + 1
      else if a < 1 then exp_fuel n (a * 2) - 1
      else 0)"

text \<open>The exponent of the binade of a double; the subnormal numbers share the exponent
  \<open>-1022\<close>.\<close>

definition double_exponent :: "real \<Rightarrow> int" where
  "double_exponent x = max (exp_fuel 2200 \<bar>x\<bar>) (- 1022)"

definition pow2 :: "int \<Rightarrow> real" where
  "pow2 e = (if 0 \<le> e then 2 ^ nat e else 1 / 2 ^ nat (- e))"

definition round_half_even :: "real \<Rightarrow> int" where
  "round_half_even y =
     (let f = \<lfloor>y\<rfloor> in
      if y - of_int f < 1 / 2 then f
      else if y - of_int f > 1 / 2 then f + 1
      else if even f then f else f + 1)"

text \<open>The double nearest to a real: a multiple of the unit in the last place of its
  binade (53 significant bits).\<close>

definition round_double :: "real \<Rightarrow> real" where
  "round_double x =
     (if x = 0 then 0
      else (let u = pow2 (double_exponent x - 52)
            in of_int (round_half_even (x / u)) * u))"

text \<open>The float operations \<open>*\<close>, \<open>+\<close>, \<open>-\<close> and \<open>/\<close> of the source (the divisors of the
  source are non-zero constants).\<close>

definition fmul :: "real \<Rightarrow> real \<Rightarrow> real" where
  "fmul x y = round_double (round_double x * round_double y)"

definition fadd :: "real \<Rightarrow> real \<Rightarrow> real" where
  "fadd x y = round_double (round_double x + round_double y)"

definition fsub :: "real \<Rightarrow> real \<Rightarrow> real" where
  "fsub x y = round_double (round_double x - round_double y)"

definition fdiv :: "real \<Rightarrow> real \<Rightarrow> real" where
  "fdiv x y = round_double (round_double x / round_double y)"

text \<open>\<open>a / b\<close> on two Python ints: the correctly rounded quotient.\<close>

definition int_truediv :: "int \<Rightarrow> int \<Rightarrow> real" where
  "int_truediv a b = round_double (real_of_int a / real_of_int b)"

text \<open>\<open>reasoning.py\<close>: the dataclass \<open>OptimizationAction\<close>. The action kind is an open
  string in the source.\<close>

record OptimizationAction =
  action_type :: string
  intensity :: real
  target_component :: string
  estimated_savings :: real
  performance_impact :: real
  confidence :: real

text \<open>Values of the untyped fields \<open>previous_value\<close> and \<open>new_value\<close>.\<close>

datatype pyval = IntV int | FloatV real | StrV string

text \<open>\<open>actions.py\<close>: the dataclass \<open>ActionResult\<close>, with its defaults in \<open>failed\<close>.
  The result's \<open>estimated_savings\<close> is named \<open>result_savings\<close> here, since the
  action has a field of the same name.\<close>

record ActionResult =
  action_id :: string
  success :: bool
  error_message :: "string option"
  previous_value :: "pyval option"
  new_value :: "pyval option"
  result_savings :: real
  actual_impact :: real

definition failed :: "string \<Rightarrow> string \<Rightarrow> ActionResult" where
  "failed i msg =
     \<lparr>action_id = i, success = False, error_message = Some msg,
      previous_value = None, new_value = None, result_savings = 0, actual_impact = 0\<rparr>"

text \<open>Python's \<open>int(x)\<close> on a float truncates towards zero.\<close>

definition py_int :: "real \<Rightarrow> int" where
  "py_int x = (if 0 \<le> x then \<lfloor>x\<rfloor> else \<lceil>x\<rceil>)"

text \<open>A process whose priority \<open>_adjust_process_priority\<close> changed.\<close>

record adjusted_process =
  pid :: int
  old_priority :: int
  new_priority :: int

text \<open>The entries of \<open>previous_states\<close>. The source stores a dict with a \<open>'type'\<close> tag;
  the tag is the constructor: \<open>'brightness'\<close>, \<open>'frequency'\<close>, \<open>'bandwidth_limit'\<close>,
  \<open>'app_throttle'\<close>, \<open>'process_priority'\<close>.\<close>

datatype prev_state =
    Brightness int
  | Frequency string real
  | BandwidthLimit string bool
  | AppThrottle string "pyval option"
  | ProcessPriority "adjusted_process list"

text \<open>What one call of a backend reads from outside the program: the clock and the
  outcome of each platform primitive. The platform commands themselves are external;
  only whether they succeed reaches the code.\<close>

record world =
  time_str :: string
    \<comment> \<open>\<open>str(time.time())\<close> as it is formatted into a fresh action id\<close>
  stamp :: real
    \<comment> \<open>\<open>time.time()\<close> stored beside an active record\<close>
  error_time_str :: string
    \<comment> \<open>\<open>str(time.time())\<close> in the handler of \<open>apply_actions\<close>\<close>
  brightness_cmd_ok :: bool
    \<comment> \<open>the Windows or Linux brightness command succeeded\<close>
  governor_ok :: bool
    \<comment> \<open>\<open>_set_cpu_governor\<close> / \<open>_set_windows_power_plan\<close> returned True\<close>
  frequency_ok :: bool
    \<comment> \<open>\<open>_set_cpu_frequency\<close> returned True\<close>
  network_interface :: string
    \<comment> \<open>\<open>_get_network_interface()\<close>\<close>
  limit_bandwidth_ok :: bool
    \<comment> \<open>\<open>_limit_bandwidth\<close> returned True\<close>
  remove_limit_ok :: bool
    \<comment> \<open>\<open>_remove_bandwidth_limit\<close> returned True\<close>
  callback_outcome :: "string + ActionResult"
    \<comment> \<open>a registered application callback: it raised (the message) or returned\<close>
  psutil_adjusted :: "string + adjusted_process list"
    \<comment> \<open>the process scan of \<open>_adjust_process_priority\<close>: it raised, or the
        processes whose priority was changed\<close>
  psutil_reverted :: "string + nat"
    \<comment> \<open>the loop of the priority revert: it raised, or the number reverted\<close>
  backend_raises :: "string option"
    \<comment> \<open>an exception escaping \<open>apply_optimization\<close> (its \<open>str(e)\<close>), which the
        source catches in \<open>apply_actions\<close>\<close>

section \<open>The display backend\<close>

text \<open>\<open>BaseOptimizer\<close> and \<open>DisplayOptimizer\<close>.\<close>

record BaseOptimizer =
  enabled :: bool
  previous_states :: "string \<rightharpoonup> prev_state"

record DisplayOptimizer = BaseOptimizer +
  display_platform :: string
  current_brightness :: int
  original_brightness :: int

text \<open>\<open>_set_brightness\<close>: clamp to 10..100, then the platform command; on any other
  platform the success is simulated. \<open>current_brightness\<close> changes only on success.\<close>

definition set_brightness :: "world \<Rightarrow> int \<Rightarrow> DisplayOptimizer \<Rightarrow> bool \<times> DisplayOptimizer" where
  "set_brightness w brightness d =
     (let b = max 10 (min 100 brightness) in
      if display_platform d = ''windows'' \<or> display_platform d = ''linux'' then
        (if brightness_cmd_ok w then (True, d\<lparr>current_brightness := b\<rparr>) else (False, d))
      else (True, d\<lparr>current_brightness := b\<rparr>))"

text \<open>\<open>DisplayOptimizer.apply_optimization\<close>.\<close>

definition display_apply ::
  "world \<Rightarrow> OptimizationAction \<Rightarrow> DisplayOptimizer \<Rightarrow> ActionResult \<times> DisplayOptimizer" where
  "display_apply w action d =
     (let aid = ''display_'' @ action_type action @ ''_'' @ time_str w in
      if action_type action = ''brightness_adjust'' then
        (let previous_brightness = current_brightness d;
             reduction = py_int (fmul (intensity action) 50);
             new_brightness = max 10 (previous_brightness - reduction);
             d1 = d\<lparr>previous_states := (previous_states d)(aid \<mapsto> Brightness previous_brightness)\<rparr>;
             (ok, d2) = set_brightness w new_brightness d1
         in (\<lparr>action_id = aid, success = ok,
              error_message = (if ok then None else Some ''Failed to set brightness''),
              previous_value = Some (IntV previous_brightness),
              new_value = Some (IntV (if ok then new_brightness else previous_brightness)),
              result_savings = estimated_savings action, actual_impact = 0\<rparr>, d2))
      else (failed aid (''Unknown display action: '' @ action_type action), d))"

text \<open>\<open>DisplayOptimizer.revert_optimization\<close>. The entry is deleted after
  \<open>_set_brightness\<close> whatever it returned.\<close>

definition display_revert ::
  "world \<Rightarrow> string \<Rightarrow> DisplayOptimizer \<Rightarrow> ActionResult \<times> DisplayOptimizer" where
  "display_revert w aid d =
     (case previous_states d aid of
        None \<Rightarrow> (failed aid ''Action not found in history'', d)
      | Some (Brightness v) \<Rightarrow>
          (let (ok, d1) = set_brightness w v d;
               d2 = d1\<lparr>previous_states := (previous_states d1)(aid := None)\<rparr>
           in (\<lparr>action_id = aid, success = ok,
                error_message = (if ok then None else Some ''Failed to revert brightness''),
                previous_value = None,
                new_value = Some (IntV (if ok then v else current_brightness d2)),
                result_savings = 0, actual_impact = 0\<rparr>, d2))
      | Some _ \<Rightarrow> (failed aid ''Unknown action type'', d))"

section \<open>The processor, network and application backends\<close>

text \<open>The platform helpers of these classes (\<open>_set_cpu_governor\<close>,
  \<open>_set_windows_power_plan\<close>, \<open>_set_cpu_frequency\<close>, \<open>_limit_bandwidth\<close>,
  \<open>_remove_bandwidth_limit\<close>, \<open>_get_network_interface\<close>, the \<open>psutil\<close> loops) only
  run external commands; the model reads their return value from the \<open>world\<close>.\<close>

record CPUOptimizer = BaseOptimizer +
  cpu_platform :: string
  original_governor :: string

text \<open>The platform branch shared by \<open>CPUOptimizer.apply_optimization\<close> and its revert:
  governor or power plan first, the frequency only if that succeeded, and a simulated
  success on any other platform.\<close>

definition cpu_platform_success :: "world \<Rightarrow> CPUOptimizer \<Rightarrow> bool" where
  "cpu_platform_success w c =
     (if cpu_platform c = ''linux'' then (if governor_ok w then frequency_ok w else False)
      else if cpu_platform c = ''windows'' then (if governor_ok w then frequency_ok w else False)
      else True)"

definition cpu_apply ::
  "world \<Rightarrow> OptimizationAction \<Rightarrow> CPUOptimizer \<Rightarrow> ActionResult \<times> CPUOptimizer" where
  "cpu_apply w action c =
     (let aid = ''cpu_'' @ action_type action @ ''_'' @ time_str w in
      if action_type action = ''cpu_throttle'' then
        (let max_freq_percent = fsub 100 (fmul (intensity action) 50);
             c1 = c\<lparr>previous_states :=
                     (previous_states c)(aid \<mapsto> Frequency (original_governor c) 100)\<rparr>;
             ok = cpu_platform_success w c1
         in (\<lparr>action_id = aid, success = ok,
              error_message = (if ok then None else Some ''Failed to throttle CPU''),
              previous_value = Some (IntV 100),
              new_value = Some (if ok then FloatV max_freq_percent else IntV 100),
              result_savings = estimated_savings action, actual_impact = 0\<rparr>, c1))
      else (failed aid (''Unknown CPU action: '' @ action_type action), c))"

definition cpu_revert :: "world \<Rightarrow> string \<Rightarrow> CPUOptimizer \<Rightarrow> ActionResult \<times> CPUOptimizer" where
  "cpu_revert w aid c =
     (case previous_states c aid of
        None \<Rightarrow> (failed aid ''Action not found in history'', c)
      | Some st \<Rightarrow>
          (let ok = (case st of Frequency g p \<Rightarrow> cpu_platform_success w c | _ \<Rightarrow> False);
               c1 = (if ok then c\<lparr>previous_states := (previous_states c)(aid := None)\<rparr> else c)
           in (\<lparr>action_id = aid, success = ok,
                error_message = (if ok then None else Some ''Failed to revert CPU settings''),
                previous_value = None, new_value = None,
                result_savings = 0, actual_impact = 0\<rparr>, c1)))"

record NetworkOptimizer = BaseOptimizer +
  net_platform :: string
  active_limits :: "string \<rightharpoonup> real"

text \<open>\<open>NetworkOptimizer.apply_optimization\<close>. \<open>previous_value\<close> is computed after
  \<open>active_limits\<close> was updated, as in the source.\<close>

definition network_apply ::
  "world \<Rightarrow> OptimizationAction \<Rightarrow> NetworkOptimizer \<Rightarrow> ActionResult \<times> NetworkOptimizer" where
  "network_apply w action n =
     (let aid = ''network_'' @ action_type action @ ''_'' @ time_str w in
      if action_type action = ''network_limit'' then
        (let interface = network_interface w;
             limit_mbps = fmul 100 (fsub 1 (intensity action));
             n1 = n\<lparr>previous_states := (previous_states n)
                     (aid \<mapsto> BandwidthLimit interface (active_limits n interface \<noteq> None))\<rparr>;
             ok = limit_bandwidth_ok w;
             n2 = (if ok then n1\<lparr>active_limits := (active_limits n1)(interface \<mapsto> limit_mbps)\<rparr>
                   else n1)
         in (\<lparr>action_id = aid, success = ok,
              error_message = (if ok then None else Some ''Failed to limit network bandwidth''),
              previous_value = Some (case active_limits n2 interface of
                                       None \<Rightarrow> StrV ''unlimited'' | Some l \<Rightarrow> FloatV l),
              new_value = Some (if ok then FloatV limit_mbps else StrV ''unchanged''),
              result_savings = estimated_savings action, actual_impact = 0\<rparr>, n2))
      else (failed aid (''Unknown network action: '' @ action_type action), n))"

definition network_revert ::
  "world \<Rightarrow> string \<Rightarrow> NetworkOptimizer \<Rightarrow> ActionResult \<times> NetworkOptimizer" where
  "network_revert w aid n =
     (case previous_states n aid of
        None \<Rightarrow> (failed aid ''Action not found in history'', n)
      | Some st \<Rightarrow>
          (let (ok, n1) =
                 (case st of
                    BandwidthLimit interface had_limit \<Rightarrow>
                      (if \<not> had_limit then
                         (let ok = remove_limit_ok w in
                          (ok, if ok \<and> active_limits n interface \<noteq> None
                               then n\<lparr>active_limits := (active_limits n)(interface := None)\<rparr>
                               else n))
                       else (False, n))
                  | _ \<Rightarrow> (False, n));
               n2 = (if ok then n1\<lparr>previous_states := (previous_states n1)(aid := None)\<rparr> else n1)
           in (\<lparr>action_id = aid, success = ok,
                error_message = (if ok then None else Some ''Failed to revert network settings''),
                previous_value = None, new_value = None,
                result_savings = 0, actual_impact = 0\<rparr>, n2)))"

text \<open>Decimal rendering of a count, for the messages of the application backend.\<close>

fun str_nat :: "nat \<Rightarrow> string" where
  "str_nat n =
     (if n < 10 then [char_of (48 + n)] else str_nat (n div 10) @ [char_of (48 + n mod 10)])"

declare str_nat.simps [simp del]

text \<open>\<open>ApplicationOptimizer\<close>: \<open>optimization_callbacks\<close> keeps the registered names;
  what a callback does when called comes from the \<open>world\<close>.\<close>

record ApplicationOptimizer = BaseOptimizer +
  optimization_callbacks :: "string set"

definition adjust_process_priority ::
  "world \<Rightarrow> string \<Rightarrow> string \<Rightarrow> ApplicationOptimizer \<Rightarrow> ActionResult \<times> ApplicationOptimizer" where
  "adjust_process_priority w aid app_name p =
     (case psutil_adjusted w of
        Inl msg \<Rightarrow> (failed aid (''Failed to adjust process priority: '' @ msg), p)
      | Inr adjusted_processes \<Rightarrow>
          (if adjusted_processes \<noteq> [] then
             (\<lparr>action_id = aid, success = True, error_message = None,
               previous_value =
                 Some (StrV (str_nat (length adjusted_processes) @ '' processes'')),
               new_value =
                 Some (StrV (''Priority reduced for '' @ str_nat (length adjusted_processes)
                             @ '' processes'')),
               result_savings = fmul 5 (real (length adjusted_processes)),
               actual_impact = 0\<rparr>,
              p\<lparr>previous_states :=
                  (previous_states p)(aid \<mapsto> ProcessPriority adjusted_processes)\<rparr>)
           else (failed aid (''No processes found for application: '' @ app_name), p)))"

definition application_apply ::
  "world \<Rightarrow> OptimizationAction \<Rightarrow> ApplicationOptimizer \<Rightarrow> ActionResult \<times> ApplicationOptimizer" where
  "application_apply w action p =
     (let aid = ''app_'' @ action_type action @ ''_'' @ time_str w in
      if action_type action = ''app_throttle'' then
        (let target_app = target_component action in
         if target_app \<in> optimization_callbacks p then
           (case callback_outcome w of
              Inl msg \<Rightarrow> (failed aid (''Application optimizer error: '' @ msg), p)
            | Inr r \<Rightarrow>
                (\<lparr>action_id = aid, success = success r, error_message = error_message r,
                  previous_value = previous_value r, new_value = new_value r,
                  result_savings = estimated_savings action, actual_impact = 0\<rparr>,
                 p\<lparr>previous_states :=
                     (previous_states p)(aid \<mapsto> AppThrottle target_app (previous_value r))\<rparr>))
         else adjust_process_priority w aid target_app p)
      else (failed aid (''Unknown application action: '' @ action_type action), p))"

definition application_revert ::
  "world \<Rightarrow> string \<Rightarrow> ApplicationOptimizer \<Rightarrow> ActionResult \<times> ApplicationOptimizer" where
  "application_revert w aid p =
     (case previous_states p aid of
        None \<Rightarrow> (failed aid ''Action not found in history'', p)
      | Some (ProcessPriority processes) \<Rightarrow>
          (case psutil_reverted w of
             Inr reverted_count \<Rightarrow>
               (\<lparr>action_id = aid, success = True, error_message = None,
                 previous_value = None,
                 new_value = Some (StrV (''Reverted priority for '' @ str_nat reverted_count
                                         @ '' processes'')),
                 result_savings = 0, actual_impact = 0\<rparr>,
                p\<lparr>previous_states := (previous_states p)(aid := None)\<rparr>)
           | Inl msg \<Rightarrow> (failed aid (''Failed to revert process priorities: '' @ msg), p))
      | Some _ \<Rightarrow> (failed aid ''Unknown action type for reversion'', p))"

section \<open>The executor\<close>

text \<open>The four backends behind the interface of \<open>BaseOptimizer\<close>; the methods dispatch
  on the class.\<close>

datatype optimizer =
    Display DisplayOptimizer
  | CPU CPUOptimizer
  | Network NetworkOptimizer
  | Application ApplicationOptimizer

fun optimizer_enabled :: "optimizer \<Rightarrow> bool" where
  "optimizer_enabled (Display d) = enabled d"
| "optimizer_enabled (CPU c) = enabled c"
| "optimizer_enabled (Network n) = enabled n"
| "optimizer_enabled (Application p) = enabled p"

fun dispatch_apply :: "world \<Rightarrow> OptimizationAction \<Rightarrow> optimizer \<Rightarrow> ActionResult \<times> optimizer" where
  "dispatch_apply w a (Display d) = (let (r, d') = display_apply w a d in (r, Display d'))"
| "dispatch_apply w a (CPU c) = (let (r, c') = cpu_apply w a c in (r, CPU c'))"
| "dispatch_apply w a (Network n) = (let (r, n') = network_apply w a n in (r, Network n'))"
| "dispatch_apply w a (Application p) =
     (let (r, p') = application_apply w a p in (r, Application p'))"

text \<open>\<open>optimizer.apply_optimization(action)\<close> as \<open>apply_actions\<close> sees it: it returns a
  result, or an exception escapes it (\<open>Inl\<close> its message), which leaves the backend
  as it was.\<close>

definition apply_optimization ::
  "world \<Rightarrow> OptimizationAction \<Rightarrow> optimizer \<Rightarrow> (string + ActionResult) \<times> optimizer" where
  "apply_optimization w a opt =
     (case backend_raises w of
        Some msg \<Rightarrow> (Inl msg, opt)
      | None \<Rightarrow> (let (r, opt') = dispatch_apply w a opt in (Inr r, opt')))"

fun revert_optimization :: "world \<Rightarrow> string \<Rightarrow> optimizer \<Rightarrow> ActionResult \<times> optimizer" where
  "revert_optimization w aid (Display d) = (let (r, d') = display_revert w aid d in (r, Display d'))"
| "revert_optimization w aid (CPU c) = (let (r, c') = cpu_revert w aid c in (r, CPU c'))"
| "revert_optimization w aid (Network n) =
     (let (r, n') = network_revert w aid n in (r, Network n'))"
| "revert_optimization w aid (Application p) =
     (let (r, p') = application_revert w aid p in (r, Application p'))"

text \<open>An entry of \<open>active_actions\<close>.\<close>

record active_record =
  action :: OptimizationAction
  result :: ActionResult
  timestamp :: real

record OptimizationActuator =
  optimizers :: "string \<rightharpoonup> optimizer"
  active_actions :: "string \<rightharpoonup> active_record"
  action_history :: "ActionResult list"

text \<open>The routing table \<open>optimizer_map\<close>, the same in \<open>_apply_single_action\<close> and in
  \<open>revert_action\<close>.\<close>

definition optimizer_map :: "string \<rightharpoonup> string" where
  "optimizer_map = map_of
     [(''brightness_adjust'', ''display''),
      (''cpu_throttle'', ''cpu''),
      (''network_limit'', ''network''),
      (''app_throttle'', ''application''),
      (''background_limit'', ''application'')]"

text \<open>\<open>OptimizationActuator._apply_single_action\<close>.\<close>

definition apply_single_action ::
  "world \<Rightarrow> OptimizationAction \<Rightarrow> OptimizationActuator
     \<Rightarrow> (string + ActionResult) \<times> OptimizationActuator" where
  "apply_single_action w a s =
     (case optimizer_map (action_type a) of
        None \<Rightarrow>
          (Inr (failed (''unknown_'' @ time_str w) (''Unknown action type: '' @ action_type a)), s)
      | Some optimizer_name \<Rightarrow>
          (case optimizers s optimizer_name of
             None \<Rightarrow>
               (Inr (failed (''missing_'' @ time_str w)
                      (''Optimizer not available: '' @ optimizer_name)), s)
           | Some opt \<Rightarrow>
               (if \<not> optimizer_enabled opt then
                  (Inr (failed (''disabled_'' @ time_str w)
                         (''Optimizer disabled: '' @ optimizer_name)), s)
                else
                  (let (out, opt') = apply_optimization w a opt
                   in (out, s\<lparr>optimizers := (optimizers s)(optimizer_name \<mapsto> opt')\<rparr>)))))"

text \<open>The body of the loop of \<open>apply_actions\<close> for one action: the \<open>try\<close> block with the
  bookkeeping of a success, and the handler that turns an exception into a failed
  result.\<close>

definition apply_one ::
  "world \<Rightarrow> OptimizationAction \<Rightarrow> OptimizationActuator \<Rightarrow> ActionResult \<times> OptimizationActuator" where
  "apply_one w a s =
     (case apply_single_action w a s of
        (Inr r, s1) \<Rightarrow>
          (r, if success r
              then s1\<lparr>active_actions := (active_actions s1)
                        (action_id r \<mapsto> \<lparr>action = a, result = r, timestamp = stamp w\<rparr>)\<rparr>
              else s1)
      | (Inl msg, s1) \<Rightarrow> (failed (''error_'' @ error_time_str w) msg, s1))"

text \<open>The loop; the \<open>i\<close>-th action of the batch meets the world \<open>env i\<close>.\<close>

fun apply_loop ::
  "(nat \<Rightarrow> world) \<Rightarrow> nat \<Rightarrow> OptimizationAction list \<Rightarrow> OptimizationActuator
     \<Rightarrow> ActionResult list \<times> OptimizationActuator" where
  "apply_loop env i [] s = ([], s)"
| "apply_loop env i (a # as) s =
     (let (r, s1) = apply_one (env i) a s;
          (rs, s2) = apply_loop env (Suc i) as s1
      in (r # rs, s2))"

text \<open>The slice \<open>xs[-n:]\<close>.\<close>

definition py_last :: "nat \<Rightarrow> 'a list \<Rightarrow> 'a list" where
  "py_last n xs = drop (length xs - n) xs"

text \<open>\<open>OptimizationActuator.apply_actions\<close>.\<close>

definition apply_actions ::
  "(nat \<Rightarrow> world) \<Rightarrow> OptimizationAction list \<Rightarrow> OptimizationActuator
     \<Rightarrow> ActionResult list \<times> OptimizationActuator" where
  "apply_actions env actions s =
     (let (results, s1) = apply_loop env 0 actions s;
          h = action_history s1 @ results;
          h' = (if length h > 1000 then py_last 500 h else h)
      in (results, s1\<lparr>action_history := h'\<rparr>))"

text \<open>\<open>OptimizationActuator.revert_action\<close>. \<open>self.optimizers.get(None)\<close> is \<open>None\<close>, so
  an unroutable kind and a missing backend end in the same branch.\<close>

definition revert_action ::
  "world \<Rightarrow> string \<Rightarrow> OptimizationActuator \<Rightarrow> ActionResult \<times> OptimizationActuator" where
  "revert_action w aid s =
     (case active_actions s aid of
        None \<Rightarrow> (failed aid ''Action not found in active actions'', s)
      | Some action_info \<Rightarrow>
          (let optimizer_name = optimizer_map (action_type (action action_info)) in
           case (case optimizer_name of None \<Rightarrow> None
                 | Some nm \<Rightarrow> map_option (Pair nm) (optimizers s nm)) of
             None \<Rightarrow>
               (failed aid (''Optimizer not found: '' @
                   (case optimizer_name of None \<Rightarrow> ''None'' | Some nm \<Rightarrow> nm)), s)
           | Some (nm, opt) \<Rightarrow>
               (let (r, opt') = revert_optimization w aid opt;
                    s1 = s\<lparr>optimizers := (optimizers s)(nm \<mapsto> opt')\<rparr>
                in (r, if success r
                       then s1\<lparr>active_actions := (active_actions s1)(aid := None)\<rparr>
                       else s1))))"

section \<open>The decision engine\<close>

text \<open>\<open>monitoring.py\<close>: the dataclass \<open>SystemMetrics\<close>.\<close>

record SystemMetrics =
  metrics_timestamp :: real
  battery_percent :: real
  battery_power_draw :: real
  cpu_percent :: real
  cpu_freq_current :: real
  memory_percent :: real
  gpu_percent :: real
  gpu_memory_percent :: real
  network_bytes_sent :: int
  network_bytes_recv :: int
  disk_io_read :: int
  disk_io_write :: int
  screen_brightness :: int
  active_processes :: int
  target_app_cpu :: real
  target_app_memory :: real

text \<open>\<open>reasoning.py\<close>: the dataclass \<open>ContextState\<close>; its fields are strings.\<close>

record ContextState =
  battery_level :: string
  performance_demand :: string
  user_activity :: string
  power_source :: string
  time_of_day :: string
  app_priority :: string

text \<open>\<open>BatteryOptimizationAgent.analyze_context\<close>; \<open>current_hour\<close> is
  \<open>time.localtime().tm_hour\<close>.\<close>

definition analyze_context :: "int \<Rightarrow> SystemMetrics \<Rightarrow> ContextState" where
  "analyze_context current_hour metrics =
     (let total_usage = fadd (cpu_percent metrics) (gpu_percent metrics) in
      \<lparr>battery_level =
         (if battery_percent metrics \<le> 15 then ''critical''
          else if battery_percent metrics \<le> 30 then ''low''
          else if battery_percent metrics \<le> 60 then ''medium''
          else ''high''),
       performance_demand =
         (if total_usage > 80 then ''heavy''
          else if total_usage > 50 then ''moderate''
          else if total_usage > 20 then ''light''
          else ''idle''),
       user_activity =
         (if 23 \<le> current_hour \<or> current_hour \<le> 6 then ''sleeping''
          else if cpu_percent metrics < 10 \<and> target_app_cpu metrics < 5 then ''away''
          else ''active''),
       power_source = (if battery_power_draw metrics < 5 then ''plugged'' else ''battery''),
       time_of_day =
         (if 6 \<le> current_hour \<and> current_hour < 12 then ''morning''
          else if 12 \<le> current_hour \<and> current_hour < 18 then ''afternoon''
          else if 18 \<le> current_hour \<and> current_hour < 22 then ''evening''
          else ''night''),
       app_priority =
         (if target_app_cpu metrics > 20 then ''critical''
          else if target_app_cpu metrics > 5 then ''foreground''
          else ''background'')\<rparr>)"

text \<open>The rule tier, \<open>BatteryRulesEngine\<close>.\<close>

definition critical_battery_rules :: "SystemMetrics \<Rightarrow> ContextState \<Rightarrow> OptimizationAction list" where
  "critical_battery_rules metrics context =
     (if screen_brightness metrics > 20 then
        [\<lparr>action_type = ''brightness_adjust'', intensity = 0.8, target_component = ''display'',
          estimated_savings = 20, performance_impact = 0.3, confidence = 0.9\<rparr>]
      else []) @
     (if cpu_percent metrics > 30 then
        [\<lparr>action_type = ''cpu_throttle'', intensity = 0.7, target_component = ''system'',
          estimated_savings = 25, performance_impact = 0.6, confidence = 0.85\<rparr>]
      else [])"

definition low_battery_rules :: "SystemMetrics \<Rightarrow> ContextState \<Rightarrow> OptimizationAction list" where
  "low_battery_rules metrics context =
     (if screen_brightness metrics > 50 then
        [\<lparr>action_type = ''brightness_adjust'', intensity = 0.4, target_component = ''display'',
          estimated_savings = 10, performance_impact = 0.15, confidence = 0.8\<rparr>]
      else []) @
     (if cpu_percent metrics > 60 then
        [\<lparr>action_type = ''cpu_throttle'', intensity = 0.3, target_component = ''system'',
          estimated_savings = 12, performance_impact = 0.25, confidence = 0.75\<rparr>]
      else [])"

definition performance_rules :: "SystemMetrics \<Rightarrow> ContextState \<Rightarrow> OptimizationAction list" where
  "performance_rules metrics context =
     (if target_app_cpu metrics < 50 then
        [\<lparr>action_type = ''background_limit'', intensity = 0.5, target_component = ''system'',
          estimated_savings = 8, performance_impact = 0.1, confidence = 0.7\<rparr>]
      else [])"

definition away_mode_rules :: "SystemMetrics \<Rightarrow> ContextState \<Rightarrow> OptimizationAction list" where
  "away_mode_rules metrics context =
     [\<lparr>action_type = ''brightness_adjust'', intensity = 0.9, target_component = ''display'',
       estimated_savings = 30, performance_impact = 0.1, confidence = 0.95\<rparr>] @
     (if network_bytes_sent metrics + network_bytes_recv metrics > 1024 * 1024 then
        [\<lparr>action_type = ''network_limit'', intensity = 0.6, target_component = ''network'',
          estimated_savings = 15, performance_impact = 0.2, confidence = 0.8\<rparr>]
      else [])"

definition get_rule_based_actions :: "SystemMetrics \<Rightarrow> ContextState \<Rightarrow> OptimizationAction list" where
  "get_rule_based_actions metrics context =
     (if battery_level context = ''critical'' then critical_battery_rules metrics context
      else if battery_level context = ''low'' then low_battery_rules metrics context
      else []) @
     (if performance_demand context = ''heavy''
         \<and> (battery_level context = ''low'' \<or> battery_level context = ''critical'')
      then performance_rules metrics context else []) @
     (if user_activity context = ''away'' then away_mode_rules metrics context else [])"

text \<open>The classifier tier. \<open>_prediction_to_actions\<close>: the templates of each class.\<close>

definition prediction_to_actions ::
  "int \<Rightarrow> real \<Rightarrow> SystemMetrics \<Rightarrow> ContextState \<Rightarrow> OptimizationAction list" where
  "prediction_to_actions prediction conf metrics context =
     (if prediction = 0 then []
      else if prediction = 1 then
        (if screen_brightness metrics > 60 then
           [\<lparr>action_type = ''brightness_adjust'', intensity = 0.3, target_component = ''display'',
             estimated_savings = 5, performance_impact = 0.1, confidence = conf\<rparr>]
         else [])
      else if prediction = 2 then
        (if cpu_percent metrics > 50 then
           [\<lparr>action_type = ''cpu_throttle'', intensity = 0.5, target_component = ''system'',
             estimated_savings = 10, performance_impact = 0.3, confidence = conf\<rparr>]
         else []) @
        (if screen_brightness metrics > 40 then
           [\<lparr>action_type = ''brightness_adjust'', intensity = 0.5, target_component = ''display'',
             estimated_savings = 8, performance_impact = 0.2, confidence = conf\<rparr>]
         else [])
      else if prediction = 3 then
        [\<lparr>action_type = ''cpu_throttle'', intensity = 0.8, target_component = ''system'',
          estimated_savings = 20, performance_impact = 0.6, confidence = conf\<rparr>,
         \<lparr>action_type = ''brightness_adjust'', intensity = 0.7, target_component = ''display'',
          estimated_savings = 15, performance_impact = 0.4, confidence = conf\<rparr>] @
        (if app_priority context \<noteq> ''critical'' then
           [\<lparr>action_type = ''app_throttle'', intensity = 0.6, target_component = ''target_app'',
             estimated_savings = 12, performance_impact = 0.5, confidence = conf\<rparr>]
         else [])
      else [])"

text \<open>\<open>_extract_features\<close>; \<open>hour\<close> is \<open>time.localtime().tm_hour\<close>. The array holds
  doubles, so the two ints are converted.\<close>

definition extract_features :: "int \<Rightarrow> SystemMetrics \<Rightarrow> real list" where
  "extract_features hour metrics =
     [round_double (battery_percent metrics), round_double (cpu_percent metrics),
      round_double (memory_percent metrics), round_double (gpu_percent metrics),
      fdiv (int_truediv (network_bytes_sent metrics + network_bytes_recv metrics) 1024) 1024,
      round_double (real_of_int (screen_brightness metrics)), round_double (real_of_int hour),
      (if battery_power_draw metrics < 5 then 1 else 0)]"

text \<open>An entry of \<open>experience_buffer\<close>.\<close>

record decision_record =
  record_timestamp :: real
  record_metrics :: SystemMetrics
  record_context :: ContextState
  record_actions :: "OptimizationAction list"

text \<open>The part of \<open>BatteryOptimizationAgent\<close> that a decision reads and writes. The
  trained scaler and forest are an arbitrary function \<open>decision_model\<close> from the
  feature vector to the predicted class and the largest class probability; \<open>None\<close>
  is an exception raised inside \<open>_ml_decision\<close>. The agent's \<open>action_history\<close> is
  named \<open>decision_history\<close> here (the executor has a field of that name).\<close>

record BatteryOptimizationAgent =
  model_trained :: bool
  decision_model :: "real list \<Rightarrow> (int \<times> real) option"
  experience_buffer :: "decision_record list"
  decision_history :: "OptimizationAction list list"

text \<open>What one decision reads from the clock.\<close>

record decision_clock =
  context_hour :: int
  feature_hour :: int
  decision_time :: real

text \<open>\<open>_ml_decision\<close>: any exception gives the empty list.\<close>

definition ml_decision ::
  "decision_clock \<Rightarrow> BatteryOptimizationAgent \<Rightarrow> SystemMetrics \<Rightarrow> ContextState
     \<Rightarrow> OptimizationAction list" where
  "ml_decision clk agent metrics context =
     (case decision_model agent (extract_features (feature_hour clk) metrics) of
        None \<Rightarrow> []
      | Some (prediction, conf) \<Rightarrow> prediction_to_actions prediction conf metrics context)"

text \<open>\<open>_combine_actions\<close>. \<open>combined\<close> is a dict whose \<open>values()\<close> are returned in
  insertion order, so it is an association list; \<open>dict_set\<close> is \<open>combined[key] = v\<close>
  (an existing key keeps its place). The key is the string
  \<open>f"{action_type}_{target_component}"\<close>.\<close>

definition action_key :: "OptimizationAction \<Rightarrow> string" where
  "action_key a = action_type a @ ''_'' @ target_component a"

fun dict_set :: "'k \<Rightarrow> 'v \<Rightarrow> ('k \<times> 'v) list \<Rightarrow> ('k \<times> 'v) list" where
  "dict_set k v [] = [(k, v)]"
| "dict_set k v ((k', v') # kvs) =
     (if k' = k then (k, v) # kvs else (k', v') # dict_set k v kvs)"

definition ml_step ::
  "OptimizationAction \<Rightarrow> (string \<times> OptimizationAction) list \<Rightarrow> (string \<times> OptimizationAction) list" where
  "ml_step a combined = dict_set (action_key a) a combined"

definition rule_step ::
  "OptimizationAction \<Rightarrow> (string \<times> OptimizationAction) list \<Rightarrow> (string \<times> OptimizationAction) list" where
  "rule_step a combined =
     (case map_of combined (action_key a) of
        None \<Rightarrow> dict_set (action_key a) a combined
      | Some existing \<Rightarrow>
          (if intensity a < intensity existing then dict_set (action_key a) a combined
           else combined))"

definition combine_actions ::
  "OptimizationAction list \<Rightarrow> OptimizationAction list \<Rightarrow> OptimizationAction list" where
  "combine_actions ml_actions rule_actions =
     map snd (fold rule_step rule_actions (fold ml_step ml_actions []))"

text \<open>\<open>deque(maxlen=n).append(x)\<close>.\<close>

definition deque_append :: "nat \<Rightarrow> 'a list \<Rightarrow> 'a \<Rightarrow> 'a list" where
  "deque_append n xs x = py_last n (xs @ [x])"

definition record_decision ::
  "decision_clock \<Rightarrow> SystemMetrics \<Rightarrow> ContextState \<Rightarrow> OptimizationAction list
     \<Rightarrow> BatteryOptimizationAgent \<Rightarrow> BatteryOptimizationAgent" where
  "record_decision clk metrics context actions agent =
     agent\<lparr>experience_buffer := deque_append 1000 (experience_buffer agent)
              \<lparr>record_timestamp = decision_time clk, record_metrics = metrics,
               record_context = context, record_actions = actions\<rparr>,
           decision_history := deque_append 100 (decision_history agent) actions\<rparr>"

text \<open>\<open>BatteryOptimizationAgent.decide_optimization\<close>.\<close>

definition decide_optimization ::
  "decision_clock \<Rightarrow> SystemMetrics \<Rightarrow> BatteryOptimizationAgent
     \<Rightarrow> OptimizationAction list \<times> BatteryOptimizationAgent" where
  "decide_optimization clk metrics agent =
     (let context = analyze_context (context_hour clk) metrics;
          actions = (if model_trained agent then ml_decision clk agent metrics context else []);
          rule_actions = get_rule_based_actions metrics context;
          combined_actions = combine_actions actions rule_actions
      in (combined_actions, record_decision clk metrics context combined_actions agent))"

section \<open>The controller\<close>

text \<open>The keys of the configuration that the modelled methods read.
  \<open>max_performance_impact\<close> is read with \<open>config.get\<close> and a default, the modes by
  subscript.\<close>

record Config =
  optimization_modes :: "string \<rightharpoonup> (string \<rightharpoonup> real)"
  max_performance_impact :: "real option"

text \<open>The dataclass \<open>AgentState\<close>; its \<open>battery_level\<close> is named \<open>state_battery_level\<close>
  here.\<close>

record AgentState =
  active :: bool
  state_battery_level :: string
  optimization_mode :: string
  actions_applied :: int
  total_savings :: real
  user_satisfaction :: real
  last_decision_time :: real

record AgentController =
  config :: Config
  state :: AgentState
  actuator :: OptimizationActuator
  emergency_mode :: bool
  min_battery_threshold :: real
  decision_queue :: "SystemMetrics list"

datatype py_error = KeyError string

text \<open>The loop of \<open>_filter_actions_by_mode\<close>, with its three \<open>continue\<close> tests.\<close>

fun filter_loop :: "real \<Rightarrow> real \<Rightarrow> real \<Rightarrow> OptimizationAction list \<Rightarrow> OptimizationAction list" where
  "filter_loop max_intensity min_confidence max_impact [] = []"
| "filter_loop max_intensity min_confidence max_impact (a # as) =
     (if intensity a > max_intensity then filter_loop max_intensity min_confidence max_impact as
      else if confidence a < min_confidence
        then filter_loop max_intensity min_confidence max_impact as
      else if performance_impact a > max_impact
        then filter_loop max_intensity min_confidence max_impact as
      else a # filter_loop max_intensity min_confidence max_impact as)"

text \<open>\<open>AgentController._filter_actions_by_mode\<close>. A subscript on a missing key raises
  \<open>KeyError\<close>.\<close>

definition filter_actions_by_mode ::
  "AgentController \<Rightarrow> OptimizationAction list \<Rightarrow> py_error + OptimizationAction list" where
  "filter_actions_by_mode c actions =
     (case optimization_modes (config c) (optimization_mode (state c)) of
        None \<Rightarrow> Inl (KeyError (optimization_mode (state c)))
      | Some mode_config \<Rightarrow>
          (case mode_config ''max_intensity'' of
             None \<Rightarrow> Inl (KeyError ''max_intensity'')
           | Some max_intensity \<Rightarrow>
               (case mode_config ''min_confidence'' of
                  None \<Rightarrow> Inl (KeyError ''min_confidence'')
                | Some min_confidence \<Rightarrow>
                    Inr (filter_loop max_intensity min_confidence
                           (case max_performance_impact (config c) of
                              None \<Rightarrow> 0.7 | Some v \<Rightarrow> v)
                           actions))))"

text \<open>The bundle built by \<open>_apply_emergency_optimizations\<close>.\<close>

definition emergency_actions :: "OptimizationAction list" where
  "emergency_actions =
     [\<lparr>action_type = ''brightness_adjust'', intensity = 0.9, target_component = ''display'',
       estimated_savings = 25, performance_impact = 0.3, confidence = 0.95\<rparr>,
      \<lparr>action_type = ''cpu_throttle'', intensity = 0.8, target_component = ''system'',
       estimated_savings = 30, performance_impact = 0.7, confidence = 0.9\<rparr>]"

definition apply_emergency_optimizations ::
  "(nat \<Rightarrow> world) \<Rightarrow> AgentController \<Rightarrow> AgentController" where
  "apply_emergency_optimizations env c =
     (let (results, act) = apply_actions env emergency_actions (actuator c)
      in c\<lparr>actuator := act\<rparr>)"

text \<open>\<open>AgentController._on_metrics_update\<close>. The subscribers called by
  \<open>_trigger_event\<close> are external observers whose errors are caught; they are not part
  of the model.\<close>

definition on_metrics_update ::
  "(nat \<Rightarrow> world) \<Rightarrow> SystemMetrics \<Rightarrow> AgentController \<Rightarrow> AgentController" where
  "on_metrics_update env metrics c =
     (let c1 = c\<lparr>state := (state c)\<lparr>state_battery_level :=
                  (if battery_percent metrics \<le> 15 then ''critical''
                   else if battery_percent metrics \<le> 30 then ''low''
                   else if battery_percent metrics \<le> 60 then ''medium''
                   else ''high'')\<rparr>\<rparr>;
          c2 = (if battery_percent metrics \<le> min_battery_threshold c1 then
                  (if \<not> emergency_mode c1
                   then apply_emergency_optimizations env (c1\<lparr>emergency_mode := True\<rparr>)
                   else c1)
                else
                  (if emergency_mode c1 then c1\<lparr>emergency_mode := False\<rparr> else c1))
      in c2\<lparr>decision_queue := decision_queue c2 @ [metrics]\<rparr>)"

section \<open>Notions used in the statements\<close>

text \<open>Whether \<open>_set_brightness\<close> will report success: always on a platform where it is
  simulated, otherwise when the platform command succeeds.\<close>

definition display_cmd_succeeds :: "world \<Rightarrow> DisplayOptimizer \<Rightarrow> bool" where
  "display_cmd_succeeds w d \<longleftrightarrow>
     (display_platform d \<noteq> ''windows'' \<and> display_platform d \<noteq> ''linux'') \<or> brightness_cmd_ok w"

text \<open>Calling \<open>revert_action\<close> for the same id once per world of the list.\<close>

fun revert_repeat ::
  "world list \<Rightarrow> string \<Rightarrow> OptimizationActuator \<Rightarrow> ActionResult list \<times> OptimizationActuator" where
  "revert_repeat [] aid s = ([], s)"
| "revert_repeat (w # ws) aid s =
     (let (r, s1) = revert_action w aid s;
          (rs, s2) = revert_repeat ws aid s1
      in (r # rs, s2))"

text \<open>The pair (kind, target domain) of an action, and the first action of a list
  stored under a key.\<close>

definition kind_target :: "OptimizationAction \<Rightarrow> string \<times> string" where
  "kind_target a = (action_type a, target_component a)"

definition entry :: "string \<Rightarrow> OptimizationAction list \<Rightarrow> OptimizationAction option" where
  "entry k xs = find (\<lambda>a. action_key a = k) xs"

text \<open>The merge policy for one key and one more rule action: an unclaimed key takes
  the rule action as it is, a claimed key changes hands only to a strictly lower
  intensity.\<close>

fun conservative :: "OptimizationAction option \<Rightarrow> OptimizationAction \<Rightarrow> OptimizationAction option" where
  "conservative None r = Some r"
| "conservative (Some e) r = (if intensity r < intensity e then Some r else Some e)"

text \<open>Every entry of the dict is stored under its own key.\<close>

definition keyed :: "(string \<times> OptimizationAction) list \<Rightarrow> bool" where
  "keyed d \<longleftrightarrow> (\<forall>(k, a) \<in> set d. k = action_key a)"

text \<open>The class the classifier tier contributes to a decision, if any.\<close>

definition classifier_class ::
  "decision_clock \<Rightarrow> SystemMetrics \<Rightarrow> BatteryOptimizationAgent \<Rightarrow> int option" where
  "classifier_class clk metrics agent =
     (if model_trained agent
      then map_option fst (decision_model agent (extract_features (feature_hour clk) metrics))
      else None)"

text \<open>The scenario property: at least two actions, among them a brightness action and
  a CPU action of at least the given intensities.\<close>

definition scenario_holds :: "real \<Rightarrow> real \<Rightarrow> OptimizationAction list \<Rightarrow> bool" where
  "scenario_holds lo_brightness lo_cpu actions \<longleftrightarrow>
     2 \<le> length actions
   \<and> list_ex (\<lambda>a. action_type a = ''brightness_adjust'' \<and> lo_brightness \<le> intensity a) actions
   \<and> list_ex (\<lambda>a. action_type a = ''cpu_throttle'' \<and> lo_cpu \<le> intensity a) actions"

text \<open>The bookkeeping invariant of the executor: the kind of every active record is
  routed to a registered backend. It holds when the active map is empty, as after
  \<open>__init__\<close>.\<close>

definition executor_inv :: "OptimizationActuator \<Rightarrow> bool" where
  "executor_inv s \<longleftrightarrow>
     (\<forall>aid info. active_actions s aid = Some info \<longrightarrow>
        (\<exists>nm opt. optimizer_map (action_type (action info)) = Some nm
                  \<and> optimizers s nm = Some opt))"

section \<open>Sample inputs\<close>

text \<open>The two actions of the self-test of \<open>actions.py\<close>.\<close>

definition sample_action :: OptimizationAction where
  "sample_action =
     \<lparr>action_type = ''brightness_adjust'', intensity = 0.3, target_component = ''display'',
      estimated_savings = 10, performance_impact = 0.1, confidence = 0.8\<rparr>"

definition sample_cpu_action :: OptimizationAction where
  "sample_cpu_action =
     \<lparr>action_type = ''cpu_throttle'', intensity = 0.5, target_component = ''system'',
      estimated_savings = 15, performance_impact = 0.4, confidence = 0.7\<rparr>"

definition sample_world :: world where
  "sample_world =
     \<lparr>time_str = ''1700000000.25'', stamp = 1700000000.25,
      error_time_str = ''1700000000.5'', brightness_cmd_ok = True, governor_ok = True,
      frequency_ok = True, network_interface = ''eth0'', limit_bandwidth_ok = True,
      remove_limit_ok = True, callback_outcome = Inl ''no callback'',
      psutil_adjusted = Inr [], psutil_reverted = Inr 0, backend_raises = None\<rparr>"

definition failing_world :: world where
  "failing_world = sample_world\<lparr>brightness_cmd_ok := False\<rparr>"

definition raising_world :: world where
  "raising_world = sample_world\<lparr>backend_raises := Some ''boom''\<rparr>"

definition sample_display :: DisplayOptimizer where
  "sample_display =
     \<lparr>enabled = True, previous_states = Map.empty, display_platform = ''linux'',
      current_brightness = 80, original_brightness = 80\<rparr>"

text \<open>The executor as \<open>__init__\<close> builds it, on Linux.\<close>

definition sample_actuator :: OptimizationActuator where
  "sample_actuator =
     \<lparr>optimizers =
        [''display'' \<mapsto> Display sample_display,
         ''cpu'' \<mapsto> CPU \<lparr>enabled = True, previous_states = Map.empty,
                          cpu_platform = ''linux'', original_governor = ''ondemand''\<rparr>,
         ''network'' \<mapsto> Network \<lparr>enabled = True, previous_states = Map.empty,
                                  net_platform = ''linux'', active_limits = Map.empty\<rparr>,
         ''application'' \<mapsto> Application \<lparr>enabled = True, previous_states = Map.empty,
                                          optimization_callbacks = {}\<rparr>],
      active_actions = Map.empty, action_history = []\<rparr>"

text \<open>The executor with one brightness action applied and active.\<close>

definition applied_id :: string where
  "applied_id = ''display_brightness_adjust_1700000000.25''"

definition applied_display :: DisplayOptimizer where
  "applied_display =
     sample_display\<lparr>previous_states := [applied_id \<mapsto> Brightness 80],
                    current_brightness := 65\<rparr>"

definition applied_record :: active_record where
  "applied_record =
     \<lparr>action = sample_action,
      result = \<lparr>action_id = applied_id, success = True, error_message = None,
                previous_value = Some (IntV 80), new_value = Some (IntV 65),
                result_savings = 10, actual_impact = 0\<rparr>,
      timestamp = 1700000000.25\<rparr>"

definition applied_actuator :: OptimizationActuator where
  "applied_actuator =
     sample_actuator\<lparr>optimizers := (optimizers sample_actuator)(''display'' \<mapsto> Display applied_display),
                     active_actions := [applied_id \<mapsto> applied_record],
                     action_history := [result applied_record]\<rparr>"

text \<open>An executor whose history is full.\<close>

definition full_actuator :: OptimizationActuator where
  "full_actuator = sample_actuator\<lparr>action_history := replicate 1000 (result applied_record)\<rparr>"

text \<open>The critical snapshot of \<open>quick_test.py\<close>.\<close>

definition critical_metrics :: SystemMetrics where
  "critical_metrics =
     \<lparr>metrics_timestamp = 1700000000, battery_percent = 8, battery_power_draw = 15,
      cpu_percent = 80, cpu_freq_current = 3000, memory_percent = 85, gpu_percent = 40,
      gpu_memory_percent = 60, network_bytes_sent = 10 * 1024 * 1024,
      network_bytes_recv = 20 * 1024 * 1024, disk_io_read = 500 * 1024,
      disk_io_write = 300 * 1024, screen_brightness = 95, active_processes = 180,
      target_app_cpu = 50, target_app_memory = 35\<rparr>"

definition sample_clock :: decision_clock where
  "sample_clock = \<lparr>context_hour = 14, feature_hour = 14, decision_time = 1700000000\<rparr>"

text \<open>Agents whose classifier answers one fixed class with confidence 0.9.\<close>

definition agent_of_class :: "int \<Rightarrow> BatteryOptimizationAgent" where
  "agent_of_class c =
     \<lparr>model_trained = True, decision_model = (\<lambda>features. Some (c, 0.9)),
      experience_buffer = [], decision_history = []\<rparr>"

text \<open>The controller with the default configuration of \<open>_load_config\<close>, in mode
  \<open>balanced\<close>.\<close>

definition sample_controller :: AgentController where
  "sample_controller =
     \<lparr>config =
        \<lparr>optimization_modes =
           [''aggressive'' \<mapsto> [''max_intensity'' \<mapsto> 0.9, ''min_confidence'' \<mapsto> 0.6],
            ''balanced'' \<mapsto> [''max_intensity'' \<mapsto> 0.6, ''min_confidence'' \<mapsto> 0.7],
            ''conservative'' \<mapsto> [''max_intensity'' \<mapsto> 0.3, ''min_confidence'' \<mapsto> 0.8]],
         max_performance_impact = Some 0.7\<rparr>,
      state = \<lparr>active = True, state_battery_level = ''unknown'', optimization_mode = ''balanced'',
               actions_applied = 0, total_savings = 0, user_satisfaction = 0.8,
               last_decision_time = 0\<rparr>,
      actuator = sample_actuator, emergency_mode = False, min_battery_threshold = 5,
      decision_queue = []\<rparr>"

text \<open>The merge example: the classifier and the rule tier propose the same kind for the
  same target, with intensities 0.5 and 0.3.\<close>

definition classifier_example :: OptimizationAction where
  "classifier_example =
     \<lparr>action_type = ''brightness_adjust'', intensity = 0.5, target_component = ''display'',
      estimated_savings = 8, performance_impact = 0.2, confidence = 0.9\<rparr>"

definition rule_example :: OptimizationAction where
  "rule_example =
     \<lparr>action_type = ''brightness_adjust'', intensity = 0.3, target_component = ''display'',
      estimated_savings = 10, performance_impact = 0.15, confidence = 0.8\<rparr>"

section \<open>Float arithmetic on concrete values\<close>

lemma exp_fuel_numeral:
  "exp_fuel (numeral k) a =
     (if 2 \<le> a then exp_fuel (pred_numeral k) (a / 2) + 1
      else if a < 1 then exp_fuel (pred_numeral k) (a * 2) - 1
      else 0)"
  by (simp add: numeral_eq_Suc)

lemmas double_eval =
  round_double_def double_exponent_def pow2_def round_half_even_def exp_fuel_numeral Let_def

text \<open>The double written \<open>0.3\<close> lies below three tenths, and its product with 50 rounds
  to 15.\<close>

lemma round_double_three_tenths:
  "round_double 0.3 = 5404319552844595 / 18014398509481984"
  by (simp add: double_eval)

lemma round_double_integers:
  "round_double 1 = 1" "round_double 5 = 5" "round_double 15 = 15" "round_double 40 = 40"
  "round_double 45 = 45" "round_double 50 = 50" "round_double 80 = 80" "round_double 85 = 85"
  "round_double 100 = 100" "round_double 120 = 120"
  by (simp_all add: double_eval)

lemma py_int_reduction:
  assumes "round_double i = round_double 0.3"
  shows "py_int (fmul i 50) = 15"
proof -
  have "fmul i 50 = round_double (5404319552844595 / 18014398509481984 * 50)"
    by (simp add: fmul_def assms round_double_three_tenths round_double_integers)
  also have "\<dots> = 15"
    by (simp add: double_eval)
  finally show ?thesis by (simp add: py_int_def)
qed

text \<open>Where the rounding shows: the float written \<open>0.58\<close> times 50 is just below 29, and
  the float sum of \<open>79.7\<close> and \<open>0.30000000000000004\<close> is exactly 80.\<close>

lemma float_product_rounds_down: "py_int (fmul 0.58 50) = 28"
  by (simp add: fmul_def py_int_def double_eval)

lemma float_sum_rounds_to_80: "fadd 79.7 0.30000000000000004 = 80"
  by (simp add: fadd_def double_eval)

text \<open>The bandwidth limit of intensity \<open>0.9\<close> is the double printed as
  \<open>9.999999999999998\<close>, not 10.\<close>

lemma float_limit_below_10: "fmul 100 (fsub 1 0.9) = 5629499534213119 / 562949953421312"
  by (simp add: fmul_def fsub_def double_eval)

section \<open>The display round trip\<close>

lemma set_brightness_success:
  "display_cmd_succeeds w d \<Longrightarrow>
   set_brightness w b d = (True, d\<lparr>current_brightness := max 10 (min 100 b)\<rparr>)"
  unfolding set_brightness_def display_cmd_succeeds_def Let_def by auto

lemma set_brightness_failure:
  "\<not> display_cmd_succeeds w d \<Longrightarrow> set_brightness w b d = (False, d)"
  unfolding set_brightness_def display_cmd_succeeds_def Let_def by auto

lemma display_cmd_succeeds_update [simp]:
  "display_cmd_succeeds w (d\<lparr>previous_states := ps\<rparr>) = display_cmd_succeeds w d"
  "display_cmd_succeeds w (d\<lparr>current_brightness := b\<rparr>) = display_cmd_succeeds w d"
  by (simp_all add: display_cmd_succeeds_def)

lemma display_apply_brightness:
  assumes "action_type a = ''brightness_adjust''" and "display_cmd_succeeds w d"
  shows "display_apply w a d =
     (\<lparr>action_id = ''display_brightness_adjust_'' @ time_str w, success = True,
       error_message = None,
       previous_value = Some (IntV (current_brightness d)),
       new_value = Some (IntV (max 10 (current_brightness d - py_int (fmul (intensity a) 50)))),
       result_savings = estimated_savings a, actual_impact = 0\<rparr>,
      d\<lparr>previous_states := (previous_states d)
            (''display_brightness_adjust_'' @ time_str w \<mapsto> Brightness (current_brightness d)),
        current_brightness :=
            max 10 (min 100 (max 10 (current_brightness d - py_int (fmul (intensity a) 50))))\<rparr>)"
  using assms by (simp add: display_apply_def Let_def set_brightness_success)

text \<open>When the platform command fails the apply reports it, keeps the brightness and
  still stores the previous state.\<close>

lemma display_apply_brightness_failed:
  assumes "action_type a = ''brightness_adjust''" and "\<not> display_cmd_succeeds w d"
  shows "display_apply w a d =
     (\<lparr>action_id = ''display_brightness_adjust_'' @ time_str w, success = False,
       error_message = Some ''Failed to set brightness'',
       previous_value = Some (IntV (current_brightness d)),
       new_value = Some (IntV (current_brightness d)),
       result_savings = estimated_savings a, actual_impact = 0\<rparr>,
      d\<lparr>previous_states := (previous_states d)
            (''display_brightness_adjust_'' @ time_str w \<mapsto> Brightness (current_brightness d))\<rparr>)"
  using assms by (simp add: display_apply_def Let_def set_brightness_failure)

lemma display_revert_brightness:
  assumes "previous_states d aid = Some (Brightness v)"
  shows "display_revert w aid d =
     (if display_cmd_succeeds w d
      then (\<lparr>action_id = aid, success = True, error_message = None, previous_value = None,
             new_value = Some (IntV v), result_savings = 0, actual_impact = 0\<rparr>,
            d\<lparr>current_brightness := max 10 (min 100 v),
              previous_states := (previous_states d)(aid := None)\<rparr>)
      else (\<lparr>action_id = aid, success = False,
             error_message = Some ''Failed to revert brightness'', previous_value = None,
             new_value = Some (IntV (current_brightness d)), result_savings = 0,
             actual_impact = 0\<rparr>,
            d\<lparr>previous_states := (previous_states d)(aid := None)\<rparr>))"
  using assms
  by (simp add: display_revert_def Let_def set_brightness_success set_brightness_failure)

lemma display_revert_missing:
  "previous_states d aid = None \<Longrightarrow>
   display_revert w aid d = (failed aid ''Action not found in history'', d)"
  by (simp add: display_revert_def)

lemma sample_display_facts:
  "current_brightness sample_display = 80"
  "action_type sample_action = ''brightness_adjust''"
  "intensity sample_action = 0.3"
  "display_cmd_succeeds sample_world sample_display"
  "\<not> display_cmd_succeeds failing_world sample_display"
  by (simp_all add: sample_display_def sample_action_def display_cmd_succeeds_def
        sample_world_def failing_world_def)

text \<open>
  Claim C7, as amended. With the current brightness at 80, applying \<open>brightness_adjust\<close>
  with the float intensity written 0.3 computes the reduction \<open>int(0.3 * 50) = 15\<close>. The
  apply succeeds exactly when the platform brightness command succeeds (or is simulated):
  then the brightness is set to \<open>max(10, 80 - 15) = 65\<close>, which is at least 10 and at most
  the previous value minus the reduction. When the command fails the apply returns a
  failed result and the brightness stays 80. In both cases a later revert of the
  returned action id succeeds exactly when the platform command does, and a successful
  revert leaves the brightness at exactly 80.
\<close>

theorem display_round_trip:
  assumes "current_brightness d = 80"
    and "action_type a = ''brightness_adjust''"
    and "round_double (intensity a) = round_double 0.3"
    and "display_apply w1 a d = (r1, d1)"
    and "display_revert w2 (action_id r1) d1 = (r2, d2)"
  shows "py_int (fmul (intensity a) 50) = 15
       \<and> previous_value r1 = Some (IntV 80)
       \<and> (success r1 \<longleftrightarrow> display_cmd_succeeds w1 d)
       \<and> (display_cmd_succeeds w1 d \<longrightarrow>
            new_value r1 = Some (IntV 65)
          \<and> current_brightness d1 = 65
          \<and> 10 \<le> current_brightness d1
          \<and> current_brightness d1 \<le> current_brightness d - py_int (fmul (intensity a) 50))
       \<and> (\<not> display_cmd_succeeds w1 d \<longrightarrow>
            error_message r1 = Some ''Failed to set brightness''
          \<and> new_value r1 = Some (IntV 80)
          \<and> current_brightness d1 = 80)
       \<and> (success r2 \<longleftrightarrow> display_cmd_succeeds w2 d)
       \<and> (success r2 \<longrightarrow> current_brightness d2 = 80 \<and> new_value r2 = Some (IntV 80))"
proof -
  have red: "py_int (fmul (intensity a) 50) = 15"
    by (rule py_int_reduction [OF assms(3)])
  let ?aid = "''display_brightness_adjust_'' @ time_str w1"
  let ?ps = "(previous_states d)(?aid \<mapsto> Brightness 80)"
  have ap: "r1 = \<lparr>action_id = ?aid, success = display_cmd_succeeds w1 d,
                  error_message = (if display_cmd_succeeds w1 d then None
                                   else Some ''Failed to set brightness''),
                  previous_value = Some (IntV 80),
                  new_value = Some (IntV (if display_cmd_succeeds w1 d then 65 else 80)),
                  result_savings = estimated_savings a, actual_impact = 0\<rparr>
          \<and> d1 = d\<lparr>previous_states := ?ps,
                    current_brightness := (if display_cmd_succeeds w1 d then 65 else 80)\<rparr>"
  proof (cases "display_cmd_succeeds w1 d")
    case True
    from display_apply_brightness [OF assms(2) True] assms(4) red assms(1) True
    show ?thesis by auto
  next
    case False
    from display_apply_brightness_failed [OF assms(2) False] assms(4) assms(1) False
    show ?thesis by auto
  qed
  then have r1: "action_id r1 = ?aid" "success r1 = display_cmd_succeeds w1 d"
    "previous_value r1 = Some (IntV 80)"
    "new_value r1 = Some (IntV (if display_cmd_succeeds w1 d then 65 else 80))"
    "error_message r1 = (if display_cmd_succeeds w1 d then None
                         else Some ''Failed to set brightness'')"
    and d1: "previous_states d1 = ?ps"
    "current_brightness d1 = (if display_cmd_succeeds w1 d then 65 else 80)"
    "display_cmd_succeeds w2 d1 = display_cmd_succeeds w2 d"
    by simp_all
  have stored: "previous_states d1 (action_id r1) = Some (Brightness 80)"
    by (simp add: r1 d1)
  have rv: "success r2 = display_cmd_succeeds w2 d"
    "success r2 \<longrightarrow> current_brightness d2 = 80 \<and> new_value r2 = Some (IntV 80)"
    using assms(5) display_revert_brightness [OF stored, of w2] d1(3)
    by (auto split: if_splits)
  show ?thesis
    using red rv by (simp add: r1 d1 assms(1))
qed

theorem display_round_trip_witness:
  "current_brightness sample_display = 80
 \<and> action_type sample_action = ''brightness_adjust''
 \<and> round_double (intensity sample_action) = round_double 0.3
 \<and> display_cmd_succeeds sample_world sample_display
 \<and> current_brightness (snd (display_apply sample_world sample_action sample_display)) = 65
 \<and> success (fst (display_revert sample_world
       (action_id (fst (display_apply sample_world sample_action sample_display)))
       (snd (display_apply sample_world sample_action sample_display))))
 \<and> current_brightness (snd (display_revert sample_world
       (action_id (fst (display_apply sample_world sample_action sample_display)))
       (snd (display_apply sample_world sample_action sample_display)))) = 80
 \<and> \<not> display_cmd_succeeds failing_world sample_display
 \<and> current_brightness (snd (display_apply failing_world sample_action sample_display)) = 80
 \<and> current_brightness (snd (display_revert sample_world
       (action_id (fst (display_apply failing_world sample_action sample_display)))
       (snd (display_apply failing_world sample_action sample_display)))) = 80"
proof -
  have h3: "round_double (intensity sample_action) = round_double 0.3"
    by (simp add: sample_display_facts(3))
  note ok = display_round_trip [OF sample_display_facts(1) sample_display_facts(2) h3
      surjective_pairing surjective_pairing, of sample_world sample_world]
  note bad = display_round_trip [OF sample_display_facts(1) sample_display_facts(2) h3
      surjective_pairing surjective_pairing, of failing_world sample_world]
  from ok bad sample_display_facts(1,2,4,5) show ?thesis
    by (simp add: h3)
qed

text \<open>The claim as stated fails when the platform command fails: on Linux with a
  failing brightness command the apply of intensity 0.3 at brightness 80 is not a
  success and the brightness is still 80, not 65.\<close>

theorem display_round_trip_counterexample:
  "current_brightness sample_display = 80
 \<and> action_type sample_action = ''brightness_adjust''
 \<and> intensity sample_action = 0.3
 \<and> display_platform sample_display = ''linux''
 \<and> \<not> brightness_cmd_ok failing_world
 \<and> \<not> success (fst (display_apply failing_world sample_action sample_display))
 \<and> new_value (fst (display_apply failing_world sample_action sample_display)) = Some (IntV 80)
 \<and> current_brightness (snd (display_apply failing_world sample_action sample_display)) = 80"
proof -
  have p: "display_platform sample_display = ''linux''" "\<not> brightness_cmd_ok failing_world"
    by (simp_all add: sample_display_def failing_world_def sample_world_def)
  from display_apply_brightness_failed [OF sample_display_facts(2) sample_display_facts(5)]
    sample_display_facts(1,2,3) p
  show ?thesis by simp
qed

section \<open>The executor: one result per action, bounded history\<close>

lemma apply_single_action_frame:
  "apply_single_action w a s = (out, s1) \<Longrightarrow>
     active_actions s1 = active_actions s \<and> action_history s1 = action_history s"
  by (auto simp: apply_single_action_def split: option.splits if_splits prod.splits)

lemma apply_one_history:
  "apply_one w a s = (r, s1) \<Longrightarrow> action_history s1 = action_history s"
  by (auto simp: apply_one_def split: prod.splits sum.splits if_splits
           dest: apply_single_action_frame)

lemma apply_loop_history:
  "apply_loop env i as s = (rs, s') \<Longrightarrow> action_history s' = action_history s"
proof (induction as arbitrary: i s rs s')
  case Nil
  then show ?case by simp
next
  case (Cons a as)
  obtain r s1 where one: "apply_one (env i) a s = (r, s1)"
    by (cases "apply_one (env i) a s")
  obtain rs1 s2 where rest: "apply_loop env (Suc i) as s1 = (rs1, s2)"
    by (cases "apply_loop env (Suc i) as s1")
  from Cons.prems one rest have "s' = s2" by simp
  with Cons.IH [OF rest] apply_one_history [OF one] show ?case by simp
qed

lemma apply_loop_length: "length (fst (apply_loop env i as s)) = length as"
  by (induction as arbitrary: i s) (simp_all add: Let_def case_prod_beta)

text \<open>The result at position \<open>k\<close> is the outcome of the \<open>k\<close>-th action, applied to the
  executor as the earlier actions of the batch left it.\<close>

lemma apply_loop_nth:
  assumes "k < length as"
  shows "fst (apply_loop env i as s) ! k =
           fst (apply_one (env (i + k)) (as ! k) (snd (apply_loop env i (take k as) s)))"
  using assms
proof (induction as arbitrary: i s k)
  case Nil
  then show ?case by simp
next
  case (Cons a as)
  show ?case
  proof (cases k)
    case 0
    then show ?thesis by (simp add: Let_def case_prod_beta)
  next
    case (Suc j)
    with Cons.prems have j: "j < length as" by simp
    show ?thesis
      using Cons.IH [OF j, of "Suc i" "snd (apply_one (env i) a s)"] Suc
      by (simp add: Let_def case_prod_beta)
  qed
qed

lemma apply_actions_unfold:
  "apply_actions env actions s =
     (fst (apply_loop env 0 actions s),
      (snd (apply_loop env 0 actions s))\<lparr>action_history :=
         (let h = action_history s @ fst (apply_loop env 0 actions s)
          in if length h > 1000 then py_last 500 h else h)\<rparr>)"
proof -
  obtain rs s1 where l: "apply_loop env 0 actions s = (rs, s1)"
    by (cases "apply_loop env 0 actions s")
  from apply_loop_history [OF l] show ?thesis
    by (simp add: apply_actions_def l Let_def)
qed

lemma optimizer_map_brightness: "optimizer_map ''brightness_adjust'' = Some ''display''"
  by (simp add: optimizer_map_def)

lemma sample_display_lookup: "optimizers sample_actuator ''display'' = Some (Display sample_display)"
  by (simp add: sample_actuator_def)

text \<open>
  Claim C5. After every \<open>apply_actions\<close> call the history has at most 1000 entries; when
  appending the batch takes it beyond 1000, it is cut to exactly its 500 most recent
  entries, a suffix of the old history followed by the batch; otherwise the batch is
  simply appended.
\<close>

theorem history_bounded:
  assumes "apply_actions env actions s = (results, s')"
  shows "length (action_history s') \<le> 1000
       \<and> (length (action_history s) + length actions > 1000 \<longrightarrow>
            length (action_history s') = 500
          \<and> action_history s' =
              drop (length (action_history s) + length actions - 500)
                   (action_history s @ results))
       \<and> (length (action_history s) + length actions \<le> 1000 \<longrightarrow>
            action_history s' = action_history s @ results)"
proof -
  from assms have res: "results = fst (apply_loop env 0 actions s)"
    and hist: "action_history s' =
         (let h = action_history s @ results
          in if length h > 1000 then py_last 500 h else h)"
    by (auto simp: apply_actions_unfold)
  have len: "length results = length actions"
    by (simp add: res apply_loop_length)
  show ?thesis
    using len by (auto simp: hist Let_def py_last_def)
qed

theorem history_bounded_witness:
  "length (action_history full_actuator) + length [sample_action] > 1000
 \<and> length (action_history
       (snd (apply_actions (\<lambda>i. sample_world) [sample_action] full_actuator))) = 500
 \<and> length (action_history sample_actuator) + length [sample_action] \<le> 1000
 \<and> action_history (snd (apply_actions (\<lambda>i. sample_world) [sample_action] sample_actuator))
     = action_history sample_actuator
       @ fst (apply_actions (\<lambda>i. sample_world) [sample_action] sample_actuator)"
proof -
  have over: "length (action_history full_actuator) + length [sample_action] > 1000"
    by (simp add: full_actuator_def)
  have under: "length (action_history sample_actuator) + length [sample_action] \<le> 1000"
    by (simp add: sample_actuator_def)
  show ?thesis
    using over under
      history_bounded [OF surjective_pairing, of "\<lambda>i. sample_world" "[sample_action]" full_actuator]
      history_bounded [OF surjective_pairing, of "\<lambda>i. sample_world" "[sample_action]" sample_actuator]
    by blast
qed

text \<open>
  Claim C10. \<open>apply_actions\<close> returns exactly one result per input action, in input
  order: the result at position \<open>i\<close> is what \<open>_apply_single_action\<close> returned for the
  \<open>i\<close>-th action, or, when an exception escaped it, a failed result carrying the
  exception's message; and the whole batch, successes and failures, is appended to the
  history (which is then cut as in C5).
\<close>

theorem apply_actions_one_result_each:
  assumes "apply_actions env actions s = (results, s')"
  shows "length results = length actions
       \<and> (\<forall>i < length actions.
            (case fst (apply_single_action (env i) (actions ! i)
                         (snd (apply_loop env 0 (take i actions) s))) of
               Inr r \<Rightarrow> results ! i = r
             | Inl msg \<Rightarrow> results ! i = failed (''error_'' @ error_time_str (env i)) msg))
       \<and> action_history s' =
           (let h = action_history s @ results
            in if length h > 1000 then py_last 500 h else h)"
proof -
  from assms have res: "results = fst (apply_loop env 0 actions s)"
    and hist: "action_history s' =
         (let h = action_history s @ results
          in if length h > 1000 then py_last 500 h else h)"
    by (auto simp: apply_actions_unfold)
  have len: "length results = length actions"
    by (simp add: res apply_loop_length)
  have pos: "(case fst (apply_single_action (env i) (actions ! i)
                         (snd (apply_loop env 0 (take i actions) s))) of
               Inr r \<Rightarrow> results ! i = r
             | Inl msg \<Rightarrow> results ! i = failed (''error_'' @ error_time_str (env i)) msg)"
    if "i < length actions" for i
    using apply_loop_nth [OF that, of env 0 s]
    by (auto simp: res apply_one_def split: prod.splits sum.splits)
  show ?thesis using len pos hist by blast
qed

theorem apply_actions_one_result_each_witness:
  "length (fst (apply_actions (\<lambda>i. if i = 0 then raising_world else sample_world)
                  [sample_action, sample_cpu_action] sample_actuator)) = 2
 \<and> fst (apply_actions (\<lambda>i. if i = 0 then raising_world else sample_world)
          [sample_action, sample_cpu_action] sample_actuator) ! 0
     = failed ''error_1700000000.5'' ''boom''"
proof -
  have first: "fst (apply_single_action raising_world sample_action sample_actuator) = Inl ''boom''"
    by (simp add: apply_single_action_def apply_optimization_def optimizer_map_brightness
          sample_display_lookup sample_action_def sample_display_def raising_world_def
          sample_world_def)
  have stamp: "error_time_str raising_world = ''1700000000.5''"
    by (simp add: raising_world_def sample_world_def)
  show ?thesis
    using first stamp
      apply_actions_one_result_each [OF surjective_pairing,
        of "\<lambda>i. if i = 0 then raising_world else sample_world"
           "[sample_action, sample_cpu_action]" sample_actuator]
    by (auto dest: spec [of _ 0])
qed

section \<open>Reverting\<close>

text \<open>The bookkeeping invariant is kept by every operation of the executor.\<close>

lemma apply_single_action_routes:
  assumes "apply_single_action w a s = (Inr r, s1)" and "success r"
  shows "\<exists>nm opt. optimizer_map (action_type a) = Some nm \<and> optimizers s1 nm = Some opt"
  using assms
  by (auto simp: apply_single_action_def failed_def case_prod_beta
           split: option.splits if_splits)

lemma apply_single_action_backends:
  assumes "apply_single_action w a s = (out, s1)" and "optimizers s nm = Some opt"
  shows "\<exists>opt'. optimizers s1 nm = Some opt'"
  using assms
  by (auto simp: apply_single_action_def case_prod_beta split: option.splits if_splits)

lemma apply_one_inv:
  assumes "executor_inv s"
  shows "executor_inv (snd (apply_one w a s))"
proof -
  obtain out s1 where single: "apply_single_action w a s = (out, s1)"
    by (cases "apply_single_action w a s")
  have keep: "executor_inv s1"
    unfolding executor_inv_def
  proof (intro allI impI)
    fix aid info
    assume "active_actions s1 aid = Some info"
    with apply_single_action_frame [OF single] have "active_actions s aid = Some info"
      by simp
    with assms obtain nm opt where "optimizer_map (action_type (action info)) = Some nm"
      "optimizers s nm = Some opt"
      unfolding executor_inv_def by blast
    with apply_single_action_backends [OF single]
    show "\<exists>nm opt. optimizer_map (action_type (action info)) = Some nm
                   \<and> optimizers s1 nm = Some opt"
      by blast
  qed
  show ?thesis
  proof (cases out)
    case (Inl msg)
    with single keep show ?thesis by (simp add: apply_one_def)
  next
    case (Inr r)
    show ?thesis
    proof (cases "success r")
      case False
      with single Inr keep show ?thesis by (simp add: apply_one_def)
    next
      case True
      from apply_single_action_routes [OF single [unfolded Inr] True]
      have "\<exists>nm opt. optimizer_map (action_type a) = Some nm \<and> optimizers s1 nm = Some opt" .
      with keep have "executor_inv (s1\<lparr>active_actions := (active_actions s1)
          (action_id r \<mapsto> \<lparr>action = a, result = r, timestamp = stamp w\<rparr>)\<rparr>)"
        unfolding executor_inv_def by auto
      with single Inr True show ?thesis by (simp add: apply_one_def)
    qed
  qed
qed

lemma apply_loop_inv:
  "executor_inv s \<Longrightarrow> executor_inv (snd (apply_loop env i as s))"
proof (induction as arbitrary: i s)
  case Nil
  then show ?case by simp
next
  case (Cons a as)
  from Cons.IH [OF apply_one_inv [OF Cons.prems], of "Suc i" "env i" a]
  show ?case by (simp add: Let_def case_prod_beta)
qed

lemma apply_actions_inv:
  assumes "executor_inv s"
  shows "executor_inv (snd (apply_actions env actions s))"
  using apply_loop_inv [OF assms, of env 0 actions]
  by (simp add: apply_actions_unfold executor_inv_def)

lemma executor_inv_mono:
  assumes "executor_inv s"
    and "\<And>nm opt. optimizers s nm = Some opt \<Longrightarrow> \<exists>opt'. optimizers s' nm = Some opt'"
    and "\<And>aid info. active_actions s' aid = Some info \<Longrightarrow> active_actions s aid = Some info"
  shows "executor_inv s'"
  unfolding executor_inv_def
proof (intro allI impI)
  fix aid info
  assume "active_actions s' aid = Some info"
  then have "active_actions s aid = Some info" by (rule assms(3))
  with assms(1) obtain nm opt where "optimizer_map (action_type (action info)) = Some nm"
    "optimizers s nm = Some opt"
    unfolding executor_inv_def by blast
  with assms(2) show "\<exists>nm opt. optimizer_map (action_type (action info)) = Some nm
                              \<and> optimizers s' nm = Some opt"
    by blast
qed

lemma revert_action_inv:
  assumes "executor_inv s"
  shows "executor_inv (snd (revert_action w aid s))"
proof (rule executor_inv_mono [OF assms])
  fix nm opt
  assume "optimizers s nm = Some opt"
  then show "\<exists>opt'. optimizers (snd (revert_action w aid s)) nm = Some opt'"
    by (auto simp: revert_action_def Let_def case_prod_beta split: option.splits)
next
  fix a info
  assume "active_actions (snd (revert_action w aid s)) a = Some info"
  then show "active_actions s a = Some info"
    by (auto simp: revert_action_def Let_def case_prod_beta split: option.splits if_splits)
qed


text \<open>
  Claim C1. \<open>revert_action\<close> on an id that is not in the active map returns a failed
  result ("Action not found in active actions") and changes nothing; it is a returned
  value, not an exception. For an active id whose kind the routing table sends to a
  registered backend, the result is the one of that backend's \<open>revert_optimization\<close>,
  and the record leaves the active map exactly when that result reports success; the
  history is not touched. Every active id is of that sort in an executor that started
  with an empty active map and was changed by \<open>apply_actions\<close> and \<open>revert_action\<close>
  only. In every case an active record is gone afterwards iff the returned result is a
  success.
\<close>

theorem revert_action_bookkeeping:
  "(active_actions s aid = None \<longrightarrow>
      revert_action w aid s = (failed aid ''Action not found in active actions'', s))
 \<and> (\<forall>info nm opt.
      active_actions s aid = Some info
      \<and> optimizer_map (action_type (action info)) = Some nm
      \<and> optimizers s nm = Some opt \<longrightarrow>
        fst (revert_action w aid s) = fst (revert_optimization w aid opt)
      \<and> optimizers (snd (revert_action w aid s)) =
          (optimizers s)(nm \<mapsto> snd (revert_optimization w aid opt))
      \<and> active_actions (snd (revert_action w aid s)) =
          (if success (fst (revert_optimization w aid opt))
           then (active_actions s)(aid := None) else active_actions s)
      \<and> action_history (snd (revert_action w aid s)) = action_history s)
 \<and> (active_actions s aid \<noteq> None \<longrightarrow>
      (active_actions (snd (revert_action w aid s)) aid = None
         \<longleftrightarrow> success (fst (revert_action w aid s))))
 \<and> (executor_inv s \<longrightarrow>
      (\<forall>info. active_actions s aid = Some info \<longrightarrow>
         (\<exists>nm opt. optimizer_map (action_type (action info)) = Some nm
                   \<and> optimizers s nm = Some opt))
      \<and> executor_inv (snd (revert_action w aid s))
      \<and> executor_inv (snd (apply_actions env actions s)))
 \<and> (active_actions s = Map.empty \<longrightarrow> executor_inv s)"
proof -
  have step: "(active_actions s aid = None \<longrightarrow>
      revert_action w aid s = (failed aid ''Action not found in active actions'', s))
   \<and> (\<forall>info nm opt.
      active_actions s aid = Some info
      \<and> optimizer_map (action_type (action info)) = Some nm
      \<and> optimizers s nm = Some opt \<longrightarrow>
        fst (revert_action w aid s) = fst (revert_optimization w aid opt)
      \<and> optimizers (snd (revert_action w aid s)) =
          (optimizers s)(nm \<mapsto> snd (revert_optimization w aid opt))
      \<and> active_actions (snd (revert_action w aid s)) =
          (if success (fst (revert_optimization w aid opt))
           then (active_actions s)(aid := None) else active_actions s)
      \<and> action_history (snd (revert_action w aid s)) = action_history s)
   \<and> (active_actions s aid \<noteq> None \<longrightarrow>
      (active_actions (snd (revert_action w aid s)) aid = None
         \<longleftrightarrow> success (fst (revert_action w aid s))))"
    by (auto simp: revert_action_def failed_def Let_def split: option.splits prod.splits)
  have routed: "\<forall>info. active_actions s aid = Some info \<longrightarrow>
         (\<exists>nm opt. optimizer_map (action_type (action info)) = Some nm
                   \<and> optimizers s nm = Some opt)"
    if "executor_inv s"
    using that unfolding executor_inv_def by blast
  have start: "executor_inv s" if "active_actions s = Map.empty"
    using that by (simp add: executor_inv_def)
  from step routed start revert_action_inv [of s w aid] apply_actions_inv [of s env actions]
  show ?thesis by blast
qed

text \<open>The sample executor with an active action is what \<open>apply_actions\<close> makes of the
  initial one.\<close>

lemma applied_actuator_reached:
  "apply_actions (\<lambda>i. sample_world) [sample_action] sample_actuator
     = ([result applied_record], applied_actuator)"
proof -
  have ok: "display_cmd_succeeds sample_world sample_display"
    by (simp add: display_cmd_succeeds_def sample_world_def)
  have kind: "action_type sample_action = ''brightness_adjust''"
    by (simp add: sample_action_def)
  have ap: "display_apply sample_world sample_action sample_display
              = (result applied_record, applied_display)"
    using display_apply_brightness [OF kind ok]
      py_int_reduction [of "intensity sample_action"]
    by (simp add: applied_record_def applied_display_def applied_id_def sample_action_def
          sample_display_def sample_world_def)
  have en: "enabled sample_display" "backend_raises sample_world = None"
    by (simp_all add: sample_display_def sample_world_def)
  have single: "apply_single_action sample_world sample_action sample_actuator
     = (Inr (result applied_record),
        sample_actuator\<lparr>optimizers :=
          (optimizers sample_actuator)(''display'' \<mapsto> Display applied_display)\<rparr>)"
    by (simp add: apply_single_action_def apply_optimization_def kind optimizer_map_brightness
          sample_display_lookup ap en)
  have rec: "success (result applied_record)" "action_id (result applied_record) = applied_id"
    "\<lparr>action = sample_action, result = result applied_record, timestamp = stamp sample_world\<rparr>
       = applied_record"
    "active_actions sample_actuator = Map.empty" "action_history sample_actuator = []"
    by (simp_all add: applied_record_def sample_world_def sample_actuator_def)
  have one: "apply_one sample_world sample_action sample_actuator
     = (result applied_record,
        sample_actuator\<lparr>optimizers :=
          (optimizers sample_actuator)(''display'' \<mapsto> Display applied_display),
          active_actions := [applied_id \<mapsto> applied_record]\<rparr>)"
    by (simp add: apply_one_def single rec)
  show ?thesis
    by (simp add: apply_actions_def one applied_actuator_def rec)
qed

lemma applied_actuator_facts:
  "active_actions applied_actuator applied_id = Some applied_record"
  "active_actions applied_actuator ''display_brightness_adjust_0'' = None"
  "action_type (action applied_record) = ''brightness_adjust''"
  "optimizers applied_actuator ''display'' = Some (Display applied_display)"
  "previous_states applied_display applied_id = Some (Brightness 80)"
  by (simp_all add: applied_actuator_def applied_record_def applied_display_def
        sample_action_def applied_id_def)

lemma applied_display_cmd:
  "display_cmd_succeeds sample_world applied_display"
  "\<not> display_cmd_succeeds failing_world applied_display"
  by (simp_all add: display_cmd_succeeds_def sample_world_def failing_world_def
        applied_display_def sample_display_def)

theorem revert_action_bookkeeping_witness:
  "active_actions applied_actuator ''display_brightness_adjust_0'' = None
 \<and> revert_action sample_world ''display_brightness_adjust_0'' applied_actuator
     = (failed ''display_brightness_adjust_0'' ''Action not found in active actions'',
        applied_actuator)
 \<and> active_actions applied_actuator applied_id = Some applied_record
 \<and> optimizer_map (action_type (action applied_record)) = Some ''display''
 \<and> optimizers applied_actuator ''display'' = Some (Display applied_display)
 \<and> success (fst (revert_action sample_world applied_id applied_actuator))
 \<and> active_actions (snd (revert_action sample_world applied_id applied_actuator)) applied_id = None
 \<and> \<not> success (fst (revert_action failing_world applied_id applied_actuator))
 \<and> active_actions (snd (revert_action failing_world applied_id applied_actuator)) applied_id
     = Some applied_record
 \<and> active_actions sample_actuator = Map.empty
 \<and> executor_inv sample_actuator
 \<and> executor_inv (snd (apply_actions (\<lambda>i. sample_world) [sample_action] sample_actuator))
 \<and> executor_inv (snd (revert_action sample_world applied_id
        (snd (apply_actions (\<lambda>i. sample_world) [sample_action] sample_actuator))))"
proof -
  have empty: "active_actions sample_actuator = Map.empty"
    by (simp add: sample_actuator_def)
  note fresh = revert_action_bookkeeping [of sample_actuator applied_id sample_world
      "\<lambda>i. sample_world" "[sample_action]"]
  from fresh empty have inv0: "executor_inv sample_actuator"
    by blast
  from fresh inv0
  have inv1: "executor_inv (snd (apply_actions (\<lambda>i. sample_world) [sample_action] sample_actuator))"
    by blast
  from inv1 revert_action_bookkeeping
      [of "snd (apply_actions (\<lambda>i. sample_world) [sample_action] sample_actuator)"
          applied_id sample_world]
  have inv2: "executor_inv (snd (revert_action sample_world applied_id
        (snd (apply_actions (\<lambda>i. sample_world) [sample_action] sample_actuator))))"
    by blast
  have route: "optimizer_map (action_type (action applied_record)) = Some ''display''"
    by (simp add: applied_actuator_facts(3) optimizer_map_brightness)
  have ok: "success (fst (revert_optimization sample_world applied_id (Display applied_display)))"
    by (simp add: display_revert_brightness [OF applied_actuator_facts(5)] applied_display_cmd
          case_prod_beta)
  have bad: "\<not> success (fst (revert_optimization failing_world applied_id (Display applied_display)))"
    by (simp add: display_revert_brightness [OF applied_actuator_facts(5)] applied_display_cmd
          case_prod_beta)
  have main: "revert_action sample_world ''display_brightness_adjust_0'' applied_actuator
     = (failed ''display_brightness_adjust_0'' ''Action not found in active actions'',
        applied_actuator)
   \<and> success (fst (revert_action sample_world applied_id applied_actuator))
   \<and> active_actions (snd (revert_action sample_world applied_id applied_actuator)) applied_id
       = None
   \<and> \<not> success (fst (revert_action failing_world applied_id applied_actuator))
   \<and> active_actions (snd (revert_action failing_world applied_id applied_actuator)) applied_id
       = Some applied_record"
    using route ok bad applied_actuator_facts(1,2,4)
      revert_action_bookkeeping [of applied_actuator "''display_brightness_adjust_0''" sample_world,
        THEN conjunct1]
      revert_action_bookkeeping [of applied_actuator applied_id sample_world,
        THEN conjunct2, THEN conjunct1]
      revert_action_bookkeeping [of applied_actuator applied_id failing_world,
        THEN conjunct2, THEN conjunct1]
    by simp
  from main route applied_actuator_facts(1,2,4) empty inv0 inv1 inv2 show ?thesis
    by blast
qed

text \<open>An active brightness record whose display entry is gone: every revert reports
  "Action not found in history" and changes nothing.\<close>

lemma revert_action_orphan:
  assumes "active_actions s aid = Some info"
    and "action_type (action info) = ''brightness_adjust''"
    and "optimizers s ''display'' = Some (Display d)"
    and "previous_states d aid = None"
  shows "revert_action w aid s = (failed aid ''Action not found in history'', s)"
proof -
  have "(optimizers s)(''display'' \<mapsto> Display d) = optimizers s"
    using assms(3) by (simp add: map_upd_triv)
  then show ?thesis
    using assms
    by (simp add: revert_action_def optimizer_map_brightness display_revert_missing failed_def)
qed

lemma revert_repeat_orphan:
  assumes "active_actions s aid = Some info"
    and "action_type (action info) = ''brightness_adjust''"
    and "optimizers s ''display'' = Some (Display d)"
    and "previous_states d aid = None"
  shows "revert_repeat ws aid s =
           (replicate (length ws) (failed aid ''Action not found in history''), s)"
  by (induction ws) (simp_all add: revert_action_orphan [OF assms])

text \<open>
  Claim C9. The display backend deletes its stored previous state for an action id
  during a revert whether or not the brightness could be restored. So when the restore
  fails, the executor keeps the record in its active map, the backend has forgotten the
  id, and every later revert of that id fails with "Action not found in history" while
  the record stays active.
\<close>

theorem display_revert_forgets_on_failure:
  assumes "active_actions s aid = Some info"
    and "action_type (action info) = ''brightness_adjust''"
    and "optimizers s ''display'' = Some (Display d)"
    and "previous_states d aid = Some (Brightness v)"
    and "\<not> display_cmd_succeeds w d"
    and "revert_action w aid s = (r, s1)"
    and "revert_repeat ws aid s1 = (rs, s2)"
  shows "previous_states (snd (display_revert w' aid d)) aid = None
       \<and> \<not> success r \<and> error_message r = Some ''Failed to revert brightness''
       \<and> active_actions s1 aid = Some info
       \<and> length rs = length ws
       \<and> (\<forall>r' \<in> set rs. \<not> success r' \<and> error_message r' = Some ''Action not found in history'')
       \<and> active_actions s2 aid = Some info"
proof -
  have gone: "previous_states (snd (display_revert w' aid d)) aid = None"
    using display_revert_brightness [OF assms(4), of w'] by simp
  let ?d1 = "d\<lparr>previous_states := (previous_states d)(aid := None)\<rparr>"
  have first: "revert_action w aid s =
      (\<lparr>action_id = aid, success = False,
        error_message = Some ''Failed to revert brightness'', previous_value = None,
        new_value = Some (IntV (current_brightness d)), result_savings = 0,
        actual_impact = 0\<rparr>,
       s\<lparr>optimizers := (optimizers s)(''display'' \<mapsto> Display ?d1)\<rparr>)"
    using assms(1-5)
    by (simp add: revert_action_def optimizer_map_brightness display_revert_brightness)
  from first assms(6) have r: "\<not> success r" "error_message r = Some ''Failed to revert brightness''"
    and s1: "s1 = s\<lparr>optimizers := (optimizers s)(''display'' \<mapsto> Display ?d1)\<rparr>"
    by auto
  have a1: "active_actions s1 aid = Some info"
    and o1: "optimizers s1 ''display'' = Some (Display ?d1)"
    and p1: "previous_states ?d1 aid = None"
    using assms(1) by (simp_all add: s1)
  from revert_repeat_orphan [OF a1 assms(2) o1 p1, of ws] assms(7)
  have rs: "rs = replicate (length ws) (failed aid ''Action not found in history'')"
    and s2: "s2 = s1" by simp_all
  show ?thesis
    using gone r a1 by (auto simp: rs s2 failed_def)
qed

theorem display_revert_forgets_on_failure_witness:
  "\<not> display_cmd_succeeds failing_world applied_display
 \<and> previous_states applied_display applied_id = Some (Brightness 80)
 \<and> previous_states (snd (display_revert sample_world applied_id applied_display)) applied_id = None
 \<and> \<not> success (fst (revert_action failing_world applied_id applied_actuator))
 \<and> length (fst (revert_repeat [sample_world, failing_world] applied_id
               (snd (revert_action failing_world applied_id applied_actuator)))) = 2
 \<and> list_all (\<lambda>r'. \<not> success r' \<and> error_message r' = Some ''Action not found in history'')
      (fst (revert_repeat [sample_world, failing_world] applied_id
              (snd (revert_action failing_world applied_id applied_actuator))))
 \<and> active_actions (snd (revert_repeat [sample_world, failing_world] applied_id
        (snd (revert_action failing_world applied_id applied_actuator)))) applied_id
     = Some applied_record"
  using applied_display_cmd(2) applied_actuator_facts(5)
    display_revert_forgets_on_failure [OF applied_actuator_facts(1) applied_actuator_facts(3)
      applied_actuator_facts(4) applied_actuator_facts(5) applied_display_cmd(2)
      surjective_pairing surjective_pairing,
      of sample_world "[sample_world, failing_world]"]
  by (simp add: list_all_iff)

section \<open>The merge of the two tiers\<close>

lemma map_of_dict_set: "map_of (dict_set k v d) = (map_of d)(k \<mapsto> v)"
  by (induction d) auto

lemma set_dict_set: "set (dict_set k v d) \<subseteq> insert (k, v) (set d)"
  by (induction d) (auto split: if_splits)

lemma keys_dict_set:
  "map fst (dict_set k v d) = (if k \<in> fst ` set d then map fst d else map fst d @ [k])"
  by (induction d) (force split: if_splits)+

lemma distinct_dict_set: "distinct (map fst d) \<Longrightarrow> distinct (map fst (dict_set k v d))"
  by (simp add: keys_dict_set)

lemma keyed_dict_set: "keyed d \<Longrightarrow> keyed (dict_set (action_key a) a d)"
  using set_dict_set [of "action_key a" a d] by (auto simp: keyed_def)

lemma ml_step_inv:
  "keyed d \<and> distinct (map fst d) \<Longrightarrow> keyed (ml_step a d) \<and> distinct (map fst (ml_step a d))"
  by (simp add: ml_step_def keyed_dict_set distinct_dict_set)

lemma rule_step_inv:
  "keyed d \<and> distinct (map fst d) \<Longrightarrow> keyed (rule_step a d) \<and> distinct (map fst (rule_step a d))"
  by (simp add: rule_step_def keyed_dict_set distinct_dict_set split: option.splits)

lemma fold_ml_step_inv:
  "keyed d \<and> distinct (map fst d) \<Longrightarrow>
     keyed (fold ml_step xs d) \<and> distinct (map fst (fold ml_step xs d))"
  by (induction xs arbitrary: d) (simp_all add: ml_step_inv)

lemma fold_rule_step_inv:
  "keyed d \<and> distinct (map fst d) \<Longrightarrow>
     keyed (fold rule_step xs d) \<and> distinct (map fst (fold rule_step xs d))"
  by (induction xs arbitrary: d) (simp_all add: rule_step_inv)

lemma combined_inv:
  "keyed (fold rule_step rule (fold ml_step ml []))
 \<and> distinct (map fst (fold rule_step rule (fold ml_step ml [])))"
proof -
  have "keyed [] \<and> distinct (map fst ([] :: (string \<times> OptimizationAction) list))"
    by (simp add: keyed_def)
  from fold_rule_step_inv [OF fold_ml_step_inv [OF this]] show ?thesis .
qed

lemma keyed_keys: "keyed d \<Longrightarrow> map (action_key \<circ> snd) d = map fst d"
  by (induction d) (auto simp: keyed_def)

lemma keyed_entry: "keyed d \<Longrightarrow> entry k (map snd d) = map_of d k"
  by (induction d) (auto simp: keyed_def entry_def)

lemma entry_snoc:
  "entry k (xs @ [a]) = (case entry k xs of Some x \<Rightarrow> Some x
                          | None \<Rightarrow> if action_key a = k then Some a else None)"
  by (induction xs) (auto simp: entry_def)

lemma map_of_ml_step:
  "map_of (ml_step a d) k = (if action_key a = k then Some a else map_of d k)"
  by (simp add: ml_step_def map_of_dict_set)

lemma map_of_fold_ml_step:
  "map_of (fold ml_step xs d) k =
     (case entry k (rev xs) of Some a \<Rightarrow> Some a | None \<Rightarrow> map_of d k)"
proof (induction xs arbitrary: d)
  case Nil
  then show ?case by (simp add: entry_def)
next
  case (Cons a xs)
  show ?case
    by (simp add: Cons.IH entry_snoc map_of_ml_step split: option.splits)
qed

lemma map_of_rule_step:
  "map_of (rule_step a d) k =
     (if action_key a = k then conservative (map_of d k) a else map_of d k)"
  by (auto simp: rule_step_def map_of_dict_set split: option.splits)

lemma map_of_fold_rule_step:
  "map_of (fold rule_step xs d) k =
     foldl conservative (map_of d k) (filter (\<lambda>a. action_key a = k) xs)"
  by (induction xs arbitrary: d) (simp_all add: map_of_rule_step)

text \<open>Per key, the merged entry starts from the classifier's action for the key (the
  last one, if the classifier list names the key twice) and meets the rule actions of
  that key in order.\<close>

lemma combine_actions_entry:
  "entry k (combine_actions ml rule) =
     foldl conservative (entry k (rev ml)) (filter (\<lambda>a. action_key a = k) rule)"
proof -
  have "entry k (combine_actions ml rule) = map_of (fold rule_step rule (fold ml_step ml [])) k"
    using combined_inv [of rule ml] by (simp add: combine_actions_def keyed_entry)
  also have "\<dots> = foldl conservative (map_of (fold ml_step ml []) k)
                      (filter (\<lambda>a. action_key a = k) rule)"
    by (rule map_of_fold_rule_step)
  also have "map_of (fold ml_step ml []) k = entry k (rev ml)"
    by (simp add: map_of_fold_ml_step split: option.splits)
  finally show ?thesis .
qed

lemma combine_actions_distinct: "distinct (map action_key (combine_actions ml rule))"
  using combined_inv [of rule ml] by (simp add: combine_actions_def keyed_keys)

lemma values_fold_ml_step: "snd ` set (fold ml_step xs d) \<subseteq> snd ` set d \<union> set xs"
proof (induction xs arbitrary: d)
  case Nil
  then show ?case by simp
next
  case (Cons a xs)
  have "snd ` set (ml_step a d) \<subseteq> insert a (snd ` set d)"
    using set_dict_set [of "action_key a" a d] by (auto simp: ml_step_def)
  with Cons.IH [of "ml_step a d"] show ?case by auto
qed

lemma values_fold_rule_step: "snd ` set (fold rule_step xs d) \<subseteq> snd ` set d \<union> set xs"
proof (induction xs arbitrary: d)
  case Nil
  then show ?case by simp
next
  case (Cons a xs)
  have "snd ` set (rule_step a d) \<subseteq> insert a (snd ` set d)"
    using set_dict_set [of "action_key a" a d]
    by (auto simp: rule_step_def split: option.splits if_splits)
  with Cons.IH [of "rule_step a d"] show ?case by auto
qed

lemma combine_actions_subset: "set (combine_actions ml rule) \<subseteq> set ml \<union> set rule"
  using values_fold_rule_step [of rule "fold ml_step ml []"] values_fold_ml_step [of ml "[]"]
  by (auto simp: combine_actions_def)

lemma foldl_conservative_min:
  "\<exists>x \<in> set (e # rs). foldl conservative (Some e) rs = Some x
       \<and> (\<forall>y \<in> set (e # rs). intensity x \<le> intensity y)"
proof (induction rs arbitrary: e)
  case Nil
  then show ?case by simp
next
  case (Cons r rs)
  show ?case
  proof (cases "intensity r < intensity e")
    case True
    from Cons.IH [of r] obtain x where "x \<in> set (r # rs)"
      "foldl conservative (Some r) rs = Some x" "\<forall>y \<in> set (r # rs). intensity x \<le> intensity y"
      by blast
    with True show ?thesis by (intro bexI [of _ x]) auto
  next
    case False
    from Cons.IH [of e] obtain x where "x \<in> set (e # rs)"
      "foldl conservative (Some e) rs = Some x" "\<forall>y \<in> set (e # rs). intensity x \<le> intensity y"
      by blast
    with False show ?thesis by (intro bexI [of _ x]) auto
  qed
qed

lemma foldl_conservative_keep:
  "\<forall>r \<in> set rs. \<not> intensity r < intensity e \<Longrightarrow> foldl conservative (Some e) rs = Some e"
  by (induction rs) simp_all

lemma foldl_conservative_replace:
  assumes "\<exists>r \<in> set rs. intensity r < intensity e"
  shows "\<exists>r \<in> set rs. intensity r < intensity e \<and> foldl conservative (Some e) rs = Some r"
proof -
  from foldl_conservative_min [of e rs] obtain x where x: "x \<in> set (e # rs)"
    "foldl conservative (Some e) rs = Some x" "\<forall>y \<in> set (e # rs). intensity x \<le> intensity y"
    by blast
  from assms obtain r where r: "r \<in> set rs" "intensity r < intensity e" by blast
  from x(3) r have lt: "intensity x < intensity e" by fastforce
  then have "x \<noteq> e" by auto
  with x(1) have "x \<in> set rs" by simp
  with lt x(2) show ?thesis by blast
qed

lemma routable_kinds:
  "optimizer_map k \<noteq> None \<Longrightarrow>
     k = ''brightness_adjust'' \<or> k = ''cpu_throttle'' \<or> k = ''network_limit''
   \<or> k = ''app_throttle'' \<or> k = ''background_limit''"
  by (simp add: optimizer_map_def split: if_splits)

text \<open>On the kinds of the routing table the key string determines the pair of kind and
  target, whatever the target string is: no kind is a prefix of another.\<close>

lemma action_key_routable:
  assumes "optimizer_map (action_type a) \<noteq> None" and "optimizer_map (action_type b) \<noteq> None"
  shows "action_key a = action_key b \<longleftrightarrow> kind_target a = kind_target b"
  using routable_kinds [OF assms(1)] routable_kinds [OF assms(2)]
  by (auto simp: action_key_def kind_target_def)

text \<open>Every action that the classifier tier or the rule tier builds has a kind of the
  routing table.\<close>

lemma rule_kinds_routable:
  "a \<in> set (critical_battery_rules m ctx) \<Longrightarrow> optimizer_map (action_type a) \<noteq> None"
  "a \<in> set (low_battery_rules m ctx) \<Longrightarrow> optimizer_map (action_type a) \<noteq> None"
  "a \<in> set (performance_rules m ctx) \<Longrightarrow> optimizer_map (action_type a) \<noteq> None"
  "a \<in> set (away_mode_rules m ctx) \<Longrightarrow> optimizer_map (action_type a) \<noteq> None"
  by (auto simp: critical_battery_rules_def low_battery_rules_def performance_rules_def
        away_mode_rules_def optimizer_map_def split: if_splits)

lemma classifier_kinds_routable:
  "a \<in> set (prediction_to_actions p conf m ctx) \<Longrightarrow> optimizer_map (action_type a) \<noteq> None"
  by (auto simp: prediction_to_actions_def optimizer_map_def split: if_splits)

lemma tier_kinds_routable:
  "\<forall>a \<in> set (prediction_to_actions p conf m ctx @ get_rule_based_actions m ctx).
     optimizer_map (action_type a) \<noteq> None"
  using rule_kinds_routable [of _ m ctx] classifier_kinds_routable [of _ p conf m ctx]
  by (auto simp: get_rule_based_actions_def split: if_splits)

lemma combine_actions_example:
  assumes "kind_target c = kind_target r" and "intensity r < intensity c"
  shows "combine_actions [c] [r] = [r]"
proof -
  from assms(1) have k: "action_key c = action_key r"
    by (simp add: action_key_def kind_target_def)
  show ?thesis
    using assms(2) by (simp add: combine_actions_def ml_step_def rule_step_def k)
qed

text \<open>
  Claim C2. The merge keys each action by its kind and target domain: the key is the
  string \<open>kind_target\<close>, and two actions whose kinds are in the routing table (as are
  all actions that the two tiers build) share it exactly when they share the pair. It
  returns one action per key, each an unchanged input action. For every key the
  classifier's action is kept unless a rule action with that key has strictly lower
  intensity, and then a rule action of strictly lower intensity replaces it; a rule
  action whose key nobody claimed is added as it is, and a later rule action of the same
  key takes its place only with a strictly lower intensity. In particular the classifier's
  (brightness_adjust, display, 0.5) merged with the rule's (brightness_adjust, display, 0.3)
  gives the single action of intensity 0.3.
\<close>

theorem combine_actions_merge_policy:
  "distinct (map action_key (combine_actions ml rule))
 \<and> set (combine_actions ml rule) \<subseteq> set ml \<union> set rule
 \<and> (\<forall>k. entry k (combine_actions ml rule) =
          foldl conservative (entry k (rev ml)) (filter (\<lambda>a. action_key a = k) rule))
 \<and> (\<forall>k m. entry k (rev ml) = Some m
          \<and> (\<forall>r \<in> set rule. action_key r = k \<longrightarrow> \<not> intensity r < intensity m)
        \<longrightarrow> entry k (combine_actions ml rule) = Some m)
 \<and> (\<forall>k m. entry k (rev ml) = Some m
          \<and> (\<exists>r \<in> set rule. action_key r = k \<and> intensity r < intensity m)
        \<longrightarrow> (\<exists>r \<in> set rule. action_key r = k \<and> intensity r < intensity m
               \<and> entry k (combine_actions ml rule) = Some r))
 \<and> (\<forall>k r rs. entry k (rev ml) = None
          \<and> filter (\<lambda>a. action_key a = k) rule = r # rs
          \<and> (\<forall>r' \<in> set rs. \<not> intensity r' < intensity r)
        \<longrightarrow> entry k (combine_actions ml rule) = Some r)
 \<and> ((\<forall>a \<in> set (ml @ rule). optimizer_map (action_type a) \<noteq> None) \<longrightarrow>
      (\<forall>a \<in> set (ml @ rule). \<forall>b \<in> set (ml @ rule).
         action_key a = action_key b \<longleftrightarrow> kind_target a = kind_target b))
 \<and> (\<forall>p conf m ctx.
      \<forall>a \<in> set (prediction_to_actions p conf m ctx @ get_rule_based_actions m ctx).
        optimizer_map (action_type a) \<noteq> None)
 \<and> (\<forall>c r. kind_target c = (''brightness_adjust'', ''display'') \<and> intensity c = 0.5
          \<and> kind_target r = (''brightness_adjust'', ''display'') \<and> intensity r = 0.3
        \<longrightarrow> map intensity (combine_actions [c] [r]) = [0.3])"
proof -
  have kept: "entry k (combine_actions ml rule) = Some m"
    if "entry k (rev ml) = Some m"
      and "\<forall>r \<in> set rule. action_key r = k \<longrightarrow> \<not> intensity r < intensity m" for k m
    using that by (simp add: combine_actions_entry foldl_conservative_keep)
  have replaced: "\<exists>r \<in> set rule. action_key r = k \<and> intensity r < intensity m
                     \<and> entry k (combine_actions ml rule) = Some r"
    if "entry k (rev ml) = Some m"
      and "\<exists>r \<in> set rule. action_key r = k \<and> intensity r < intensity m" for k m
  proof -
    from that(2) have "\<exists>r \<in> set (filter (\<lambda>a. action_key a = k) rule). intensity r < intensity m"
      by auto
    from foldl_conservative_replace [OF this] that(1) show ?thesis
      by (auto simp: combine_actions_entry)
  qed
  have added: "entry k (combine_actions ml rule) = Some r"
    if "entry k (rev ml) = None" and "filter (\<lambda>a. action_key a = k) rule = r # rs"
      and "\<forall>r' \<in> set rs. \<not> intensity r' < intensity r" for k r rs
    using that by (simp add: combine_actions_entry foldl_conservative_keep)
  have pairs: "action_key a = action_key b \<longleftrightarrow> kind_target a = kind_target b"
    if "\<forall>a \<in> set (ml @ rule). optimizer_map (action_type a) \<noteq> None"
      and "a \<in> set (ml @ rule)" and "b \<in> set (ml @ rule)" for a b
    using that action_key_routable [of a b] by blast
  have example: "map intensity (combine_actions [c] [r]) = [0.3]"
    if "kind_target c = (''brightness_adjust'', ''display'')" and "intensity c = 0.5"
      and "kind_target r = (''brightness_adjust'', ''display'')" and "intensity r = 0.3" for c r
  proof -
    have "intensity r < intensity c" by (simp add: that(2,4))
    with that(1,3) have "combine_actions [c] [r] = [r]"
      by (intro combine_actions_example) simp_all
    then show ?thesis by (simp add: that(4))
  qed
  show ?thesis
    using combine_actions_distinct [of ml rule] combine_actions_subset [of ml rule]
      combine_actions_entry [of _ ml rule] kept replaced added pairs example
      tier_kinds_routable
    by blast
qed

theorem combine_actions_merge_policy_witness:
  "entry ''brightness_adjust_display'' (rev [classifier_example]) = Some classifier_example
 \<and> (\<exists>r \<in> set [rule_example].
       action_key r = ''brightness_adjust_display'' \<and> intensity r < intensity classifier_example)
 \<and> entry ''brightness_adjust_display'' (combine_actions [classifier_example] [rule_example])
     = Some rule_example
 \<and> optimizer_map (action_type classifier_example) \<noteq> None
 \<and> optimizer_map (action_type rule_example) \<noteq> None
 \<and> (action_key classifier_example = action_key rule_example
      \<longleftrightarrow> kind_target classifier_example = kind_target rule_example)
 \<and> kind_target classifier_example = (''brightness_adjust'', ''display'')
 \<and> intensity classifier_example = 0.5
 \<and> kind_target rule_example = (''brightness_adjust'', ''display'')
 \<and> intensity rule_example = 0.3
 \<and> map intensity (combine_actions [classifier_example] [rule_example]) = [0.3]"
proof -
  have e: "entry ''brightness_adjust_display'' (rev [classifier_example]) = Some classifier_example"
    by (simp add: entry_def action_key_def classifier_example_def)
  have r: "\<exists>r \<in> set [rule_example].
       action_key r = ''brightness_adjust_display'' \<and> intensity r < intensity classifier_example"
    by (simp add: action_key_def classifier_example_def rule_example_def)
  have v: "\<forall>a \<in> set ([classifier_example] @ [rule_example]). optimizer_map (action_type a) \<noteq> None"
    by (simp add: optimizer_map_def classifier_example_def rule_example_def)
  have c: "kind_target classifier_example = (''brightness_adjust'', ''display'')"
    "intensity classifier_example = 0.5"
    "kind_target rule_example = (''brightness_adjust'', ''display'')"
    "intensity rule_example = 0.3"
    by (simp_all add: kind_target_def classifier_example_def rule_example_def)
  note T = combine_actions_merge_policy [of "[classifier_example]" "[rule_example]"]
  note c5 = T [THEN conjunct2, THEN conjunct2, THEN conjunct2, THEN conjunct2, THEN conjunct1]
  note c7 = T [THEN conjunct2, THEN conjunct2, THEN conjunct2, THEN conjunct2, THEN conjunct2,
               THEN conjunct2, THEN conjunct1]
  note c9 = T [THEN conjunct2, THEN conjunct2, THEN conjunct2, THEN conjunct2, THEN conjunct2,
               THEN conjunct2, THEN conjunct2, THEN conjunct2]
  from c5 [rule_format, of "''brightness_adjust_display''" classifier_example] e r
  have m: "entry ''brightness_adjust_display'' (combine_actions [classifier_example] [rule_example])
             = Some rule_example"
    by simp
  from c7 v
  have p: "action_key classifier_example = action_key rule_example
             \<longleftrightarrow> kind_target classifier_example = kind_target rule_example"
    by simp
  from c9 [rule_format, of classifier_example rule_example] c
  have x: "map intensity (combine_actions [classifier_example] [rule_example]) = [0.3]"
    by simp
  from v have v': "optimizer_map (action_type classifier_example) \<noteq> None"
    "optimizer_map (action_type rule_example) \<noteq> None"
    by simp_all
  from e r m v' p c x show ?thesis by blast
qed

section \<open>Context derivation\<close>

text \<open>
  Claim C6. The context is a function of the snapshot and the wall-clock hour alone. Its
  battery tier is critical up to 15 percent, low up to 30, medium up to 60 and high
  above. Its performance demand is read from the sum of CPU and GPU percent as the
  program computes it, a float addition: heavy above 80, moderate above 50, light above
  20 and idle otherwise. So battery 8 is critical, battery 45 is medium, and CPU and GPU
  readings that sum to 85 are heavy.
\<close>

theorem analyze_context_thresholds:
  "(battery_percent m \<le> 15 \<longrightarrow> battery_level (analyze_context h m) = ''critical'')
 \<and> (15 < battery_percent m \<and> battery_percent m \<le> 30 \<longrightarrow>
       battery_level (analyze_context h m) = ''low'')
 \<and> (30 < battery_percent m \<and> battery_percent m \<le> 60 \<longrightarrow>
       battery_level (analyze_context h m) = ''medium'')
 \<and> (60 < battery_percent m \<longrightarrow> battery_level (analyze_context h m) = ''high'')
 \<and> (fadd (cpu_percent m) (gpu_percent m) > 80 \<longrightarrow>
       performance_demand (analyze_context h m) = ''heavy'')
 \<and> (50 < fadd (cpu_percent m) (gpu_percent m) \<and> fadd (cpu_percent m) (gpu_percent m) \<le> 80 \<longrightarrow>
       performance_demand (analyze_context h m) = ''moderate'')
 \<and> (20 < fadd (cpu_percent m) (gpu_percent m) \<and> fadd (cpu_percent m) (gpu_percent m) \<le> 50 \<longrightarrow>
       performance_demand (analyze_context h m) = ''light'')
 \<and> (fadd (cpu_percent m) (gpu_percent m) \<le> 20 \<longrightarrow>
       performance_demand (analyze_context h m) = ''idle'')
 \<and> (battery_percent m = 8 \<longrightarrow> battery_level (analyze_context h m) = ''critical'')
 \<and> (battery_percent m = 45 \<longrightarrow> battery_level (analyze_context h m) = ''medium'')
 \<and> (round_double (cpu_percent m) + round_double (gpu_percent m) = 85 \<longrightarrow>
       performance_demand (analyze_context h m) = ''heavy'')"
proof -
  have sum85: "fadd (cpu_percent m) (gpu_percent m) = 85"
    if "round_double (cpu_percent m) + round_double (gpu_percent m) = 85"
    using that by (simp add: fadd_def round_double_integers)
  have "performance_demand (analyze_context h m) = ''heavy''"
    if "round_double (cpu_percent m) + round_double (gpu_percent m) = 85"
    using sum85 [OF that] by (simp add: analyze_context_def Let_def)
  then show ?thesis
    by (simp add: analyze_context_def Let_def)
qed

lemma sample_float_sums:
  "round_double (cpu_percent (critical_metrics\<lparr>cpu_percent := 45\<rparr>))
     + round_double (gpu_percent (critical_metrics\<lparr>cpu_percent := 45\<rparr>)) = 85"
  "fadd 79.7 0.30000000000000004 = 80"
  "fadd 20 40 = 60" "fadd 5 20 = 25" "fadd 5 5 = 10"
  by (simp_all add: critical_metrics_def fadd_def double_eval)

theorem analyze_context_thresholds_witness:
  "battery_percent critical_metrics = 8
 \<and> battery_level (analyze_context 14 critical_metrics) = ''critical''
 \<and> battery_percent (critical_metrics\<lparr>battery_percent := 45\<rparr>) = 45
 \<and> battery_level (analyze_context 14 (critical_metrics\<lparr>battery_percent := 45\<rparr>)) = ''medium''
 \<and> battery_level (analyze_context 14 (critical_metrics\<lparr>battery_percent := 25\<rparr>)) = ''low''
 \<and> battery_level (analyze_context 14 (critical_metrics\<lparr>battery_percent := 70\<rparr>)) = ''high''
 \<and> round_double (cpu_percent (critical_metrics\<lparr>cpu_percent := 45\<rparr>))
     + round_double (gpu_percent (critical_metrics\<lparr>cpu_percent := 45\<rparr>)) = 85
 \<and> performance_demand (analyze_context 14 (critical_metrics\<lparr>cpu_percent := 45\<rparr>)) = ''heavy''
 \<and> fadd 79.7 0.30000000000000004 = 80
 \<and> performance_demand (analyze_context 14
       (critical_metrics\<lparr>cpu_percent := 79.7, gpu_percent := 0.30000000000000004\<rparr>))
     = ''moderate''
 \<and> performance_demand (analyze_context 14 (critical_metrics\<lparr>cpu_percent := 20\<rparr>)) = ''moderate''
 \<and> performance_demand
       (analyze_context 14 (critical_metrics\<lparr>cpu_percent := 5, gpu_percent := 20\<rparr>)) = ''light''
 \<and> performance_demand
       (analyze_context 14 (critical_metrics\<lparr>cpu_percent := 5, gpu_percent := 5\<rparr>)) = ''idle''"
proof -
  have b: "battery_percent critical_metrics = 8" "gpu_percent critical_metrics = 40"
    by (simp_all add: critical_metrics_def)
  note t = analyze_context_thresholds
  from t [of critical_metrics 14] b
  have c1: "battery_level (analyze_context 14 critical_metrics) = ''critical''"
    by simp
  from t [of "critical_metrics\<lparr>battery_percent := 45\<rparr>" 14]
  have c2: "battery_level (analyze_context 14 (critical_metrics\<lparr>battery_percent := 45\<rparr>)) = ''medium''"
    by simp
  from t [of "critical_metrics\<lparr>battery_percent := 25\<rparr>" 14]
  have c3: "battery_level (analyze_context 14 (critical_metrics\<lparr>battery_percent := 25\<rparr>)) = ''low''"
    by simp
  from t [of "critical_metrics\<lparr>battery_percent := 70\<rparr>" 14]
  have c4: "battery_level (analyze_context 14 (critical_metrics\<lparr>battery_percent := 70\<rparr>)) = ''high''"
    by simp
  from t [of "critical_metrics\<lparr>cpu_percent := 45\<rparr>" 14] sample_float_sums(1)
  have d1: "performance_demand (analyze_context 14 (critical_metrics\<lparr>cpu_percent := 45\<rparr>)) = ''heavy''"
    by blast
  from t [of "critical_metrics\<lparr>cpu_percent := 79.7, gpu_percent := 0.30000000000000004\<rparr>" 14]
    sample_float_sums(2)
  have d2: "performance_demand (analyze_context 14
       (critical_metrics\<lparr>cpu_percent := 79.7, gpu_percent := 0.30000000000000004\<rparr>))
     = ''moderate''"
    by simp
  from t [of "critical_metrics\<lparr>cpu_percent := 20\<rparr>" 14]
  have d3: "performance_demand (analyze_context 14 (critical_metrics\<lparr>cpu_percent := 20\<rparr>)) = ''moderate''"
    by (simp add: b sample_float_sums(3))
  from t [of "critical_metrics\<lparr>cpu_percent := 5, gpu_percent := 20\<rparr>" 14]
  have d4: "performance_demand
       (analyze_context 14 (critical_metrics\<lparr>cpu_percent := 5, gpu_percent := 20\<rparr>)) = ''light''"
    by (simp add: sample_float_sums(4))
  from t [of "critical_metrics\<lparr>cpu_percent := 5, gpu_percent := 5\<rparr>" 14]
  have d5: "performance_demand
       (analyze_context 14 (critical_metrics\<lparr>cpu_percent := 5, gpu_percent := 5\<rparr>)) = ''idle''"
    by (simp add: sample_float_sums(5))
  from b(1) c1 c2 c3 c4 sample_float_sums(1,2) d1 d2 d3 d4 d5 show ?thesis
    by simp
qed

section \<open>The mode filter\<close>

lemma filter_loop_filter:
  "filter_loop mi mc mp actions =
     filter (\<lambda>a. intensity a \<le> mi \<and> confidence a \<ge> mc \<and> performance_impact a \<le> mp) actions"
  by (induction actions) auto

text \<open>
  Claim C3. Given the configuration of the active mode (\<open>max_intensity\<close>,
  \<open>min_confidence\<close>) and the global maximum impact, the mode filter returns exactly the
  input actions, in input order, whose intensity is at most \<open>max_intensity\<close>, whose
  confidence is at least \<open>min_confidence\<close> and whose performance impact is at most the
  global maximum. It returns a list and changes no state.
\<close>

theorem filter_actions_by_mode_exact:
  assumes "optimization_modes (config c) (optimization_mode (state c)) = Some mode_config"
    and "mode_config ''max_intensity'' = Some max_intensity"
    and "mode_config ''min_confidence'' = Some min_confidence"
    and "global_max_impact = (case max_performance_impact (config c) of None \<Rightarrow> 0.7 | Some v \<Rightarrow> v)"
  shows "filter_actions_by_mode c actions =
           Inr (filter (\<lambda>a. intensity a \<le> max_intensity
                           \<and> confidence a \<ge> min_confidence
                           \<and> performance_impact a \<le> global_max_impact) actions)"
  using assms by (simp add: filter_actions_by_mode_def filter_loop_filter)

theorem filter_actions_by_mode_exact_witness:
  "optimization_modes (config sample_controller) (optimization_mode (state sample_controller))
     = Some [''max_intensity'' \<mapsto> 0.6, ''min_confidence'' \<mapsto> 0.7]
 \<and> filter_actions_by_mode sample_controller (sample_cpu_action # sample_action # emergency_actions)
     = Inr [sample_cpu_action, sample_action]"
proof -
  have m: "optimization_modes (config sample_controller) (optimization_mode (state sample_controller))
     = Some [''max_intensity'' \<mapsto> 0.6, ''min_confidence'' \<mapsto> 0.7]"
    by (simp add: sample_controller_def)
  have g: "(0.7 :: real) = (case max_performance_impact (config sample_controller) of
                             None \<Rightarrow> 0.7 | Some v \<Rightarrow> v)"
    by (simp add: sample_controller_def)
  have "filter_actions_by_mode sample_controller
          (sample_cpu_action # sample_action # emergency_actions)
        = Inr (filter (\<lambda>a. intensity a \<le> 0.6 \<and> confidence a \<ge> 0.7
                           \<and> performance_impact a \<le> 0.7)
                 (sample_cpu_action # sample_action # emergency_actions))"
    by (rule filter_actions_by_mode_exact [OF m _ _ g]) simp_all
  then show ?thesis
    using m by (simp add: sample_cpu_action_def sample_action_def emergency_actions_def)
qed

section \<open>The emergency watchdog\<close>

text \<open>
  Claim C4. On every ingestion step: with the battery at or below the emergency
  threshold and the flag false, the flag becomes true and the fixed bundle (brightness at
  intensity 0.9, CPU throttle at intensity 0.8) goes straight to \<open>apply_actions\<close>; the
  configuration and the mode play no part, so nothing filters it. With the battery above
  the threshold and the flag true, the flag is cleared and the executor is left as it
  is. In the two other cases neither the flag nor the executor changes.
\<close>

theorem emergency_watchdog:
  "map (\<lambda>a. (action_type a, intensity a)) emergency_actions
     = [(''brightness_adjust'', 0.9), (''cpu_throttle'', 0.8)]
 \<and> (battery_percent m \<le> min_battery_threshold c \<and> \<not> emergency_mode c \<longrightarrow>
       emergency_mode (on_metrics_update env m c)
     \<and> actuator (on_metrics_update env m c)
         = snd (apply_actions env emergency_actions (actuator c)))
 \<and> (battery_percent m > min_battery_threshold c \<and> emergency_mode c \<longrightarrow>
       \<not> emergency_mode (on_metrics_update env m c)
     \<and> actuator (on_metrics_update env m c) = actuator c)
 \<and> ((battery_percent m \<le> min_battery_threshold c \<longleftrightarrow> emergency_mode c) \<longrightarrow>
       emergency_mode (on_metrics_update env m c) = emergency_mode c
     \<and> actuator (on_metrics_update env m c) = actuator c)
 \<and> actuator (on_metrics_update env m (c\<lparr>config := cfg, state := st\<rparr>))
     = actuator (on_metrics_update env m c)
 \<and> decision_queue (on_metrics_update env m c) = decision_queue c @ [m]"
  by (auto simp: on_metrics_update_def apply_emergency_optimizations_def emergency_actions_def
        Let_def case_prod_beta)

theorem emergency_watchdog_witness:
  "battery_percent (critical_metrics\<lparr>battery_percent := 4\<rparr>)
     \<le> min_battery_threshold sample_controller
 \<and> \<not> emergency_mode sample_controller
 \<and> emergency_mode (on_metrics_update (\<lambda>i. sample_world)
       (critical_metrics\<lparr>battery_percent := 4\<rparr>) sample_controller)
 \<and> actuator (on_metrics_update (\<lambda>i. sample_world)
       (critical_metrics\<lparr>battery_percent := 4\<rparr>) sample_controller)
     = snd (apply_actions (\<lambda>i. sample_world) emergency_actions (actuator sample_controller))
 \<and> battery_percent critical_metrics
     > min_battery_threshold (sample_controller\<lparr>emergency_mode := True\<rparr>)
 \<and> emergency_mode (sample_controller\<lparr>emergency_mode := True\<rparr>)
 \<and> \<not> emergency_mode (on_metrics_update (\<lambda>i. sample_world) critical_metrics
         (sample_controller\<lparr>emergency_mode := True\<rparr>))
 \<and> actuator (on_metrics_update (\<lambda>i. sample_world) critical_metrics
       (sample_controller\<lparr>emergency_mode := True\<rparr>))
     = actuator (sample_controller\<lparr>emergency_mode := True\<rparr>)"
proof -
  have enter: "battery_percent (critical_metrics\<lparr>battery_percent := 4\<rparr>)
                 \<le> min_battery_threshold sample_controller \<and> \<not> emergency_mode sample_controller"
    by (simp add: sample_controller_def)
  have leave: "battery_percent critical_metrics
                 > min_battery_threshold (sample_controller\<lparr>emergency_mode := True\<rparr>)
               \<and> emergency_mode (sample_controller\<lparr>emergency_mode := True\<rparr>)"
    by (simp add: sample_controller_def critical_metrics_def)
  show ?thesis
    using enter leave
      emergency_watchdog [of "critical_metrics\<lparr>battery_percent := 4\<rparr>" sample_controller
        "\<lambda>i. sample_world"]
      emergency_watchdog [of critical_metrics "sample_controller\<lparr>emergency_mode := True\<rparr>"
        "\<lambda>i. sample_world"]
    by blast
qed

section \<open>The critical scenario\<close>

text \<open>The rule tier on a snapshot with battery 8, CPU 80 and brightness 95: the two
  critical-battery actions, then possibly the background limit.\<close>

lemma critical_rule_actions:
  assumes "battery_percent m = 8" and "cpu_percent m = 80" and "screen_brightness m = 95"
  shows "\<exists>extra.
      get_rule_based_actions m (analyze_context h m) =
        [\<lparr>action_type = ''brightness_adjust'', intensity = 0.8, target_component = ''display'',
          estimated_savings = 20, performance_impact = 0.3, confidence = 0.9\<rparr>,
         \<lparr>action_type = ''cpu_throttle'', intensity = 0.7, target_component = ''system'',
          estimated_savings = 25, performance_impact = 0.6, confidence = 0.85\<rparr>] @ extra
    \<and> (extra = [] \<or> extra =
        [\<lparr>action_type = ''background_limit'', intensity = 0.5, target_component = ''system'',
          estimated_savings = 8, performance_impact = 0.1, confidence = 0.7\<rparr>])"
  using assms
  by (simp add: get_rule_based_actions_def analyze_context_def critical_battery_rules_def
        performance_rules_def Let_def)

text \<open>The classifier tier on the same snapshot, by predicted class.\<close>

lemma critical_ml_actions:
  assumes "cpu_percent m = 80" and "screen_brightness m = 95"
  shows "prediction_to_actions p conf m ctx =
     (if p = 1 then
        [\<lparr>action_type = ''brightness_adjust'', intensity = 0.3, target_component = ''display'',
          estimated_savings = 5, performance_impact = 0.1, confidence = conf\<rparr>]
      else if p = 2 then
        [\<lparr>action_type = ''cpu_throttle'', intensity = 0.5, target_component = ''system'',
          estimated_savings = 10, performance_impact = 0.3, confidence = conf\<rparr>,
         \<lparr>action_type = ''brightness_adjust'', intensity = 0.5, target_component = ''display'',
          estimated_savings = 8, performance_impact = 0.2, confidence = conf\<rparr>]
      else if p = 3 then
        [\<lparr>action_type = ''cpu_throttle'', intensity = 0.8, target_component = ''system'',
          estimated_savings = 20, performance_impact = 0.6, confidence = conf\<rparr>,
         \<lparr>action_type = ''brightness_adjust'', intensity = 0.7, target_component = ''display'',
          estimated_savings = 15, performance_impact = 0.4, confidence = conf\<rparr>] @
        (if app_priority ctx \<noteq> ''critical'' then
           [\<lparr>action_type = ''app_throttle'', intensity = 0.6, target_component = ''target_app'',
             estimated_savings = 12, performance_impact = 0.5, confidence = conf\<rparr>]
         else [])
      else [])"
  using assms by (simp add: prediction_to_actions_def)

lemmas combine_eval =
  combine_actions_def ml_step_def rule_step_def action_key_def scenario_holds_def

lemma scenario_no_classifier:
  assumes "extra = [] \<or> extra =
        [\<lparr>action_type = ''background_limit'', intensity = 0.5, target_component = ''system'',
          estimated_savings = 8, performance_impact = 0.1, confidence = 0.7\<rparr>]"
  shows "scenario_holds 0.7 0.7 (combine_actions []
      ([\<lparr>action_type = ''brightness_adjust'', intensity = 0.8, target_component = ''display'',
          estimated_savings = 20, performance_impact = 0.3, confidence = 0.9\<rparr>,
         \<lparr>action_type = ''cpu_throttle'', intensity = 0.7, target_component = ''system'',
          estimated_savings = 25, performance_impact = 0.6, confidence = 0.85\<rparr>] @ extra))"
  using assms by (auto simp: combine_eval)

lemma scenario_class_1:
  assumes "extra = [] \<or> extra =
        [\<lparr>action_type = ''background_limit'', intensity = 0.5, target_component = ''system'',
          estimated_savings = 8, performance_impact = 0.1, confidence = 0.7\<rparr>]"
  shows "map (\<lambda>a. (action_type a, intensity a)) (combine_actions
      [\<lparr>action_type = ''brightness_adjust'', intensity = 0.3, target_component = ''display'',
          estimated_savings = 5, performance_impact = 0.1, confidence = conf\<rparr>]
      ([\<lparr>action_type = ''brightness_adjust'', intensity = 0.8, target_component = ''display'',
          estimated_savings = 20, performance_impact = 0.3, confidence = 0.9\<rparr>,
         \<lparr>action_type = ''cpu_throttle'', intensity = 0.7, target_component = ''system'',
          estimated_savings = 25, performance_impact = 0.6, confidence = 0.85\<rparr>] @ extra))
    = [(''brightness_adjust'', 0.3), (''cpu_throttle'', 0.7)]
        @ map (\<lambda>a. (action_type a, intensity a)) extra"
  using assms by (auto simp: combine_eval)

lemma scenario_class_2:
  assumes "extra = [] \<or> extra =
        [\<lparr>action_type = ''background_limit'', intensity = 0.5, target_component = ''system'',
          estimated_savings = 8, performance_impact = 0.1, confidence = 0.7\<rparr>]"
  shows "map (\<lambda>a. (action_type a, intensity a)) (combine_actions
      [\<lparr>action_type = ''cpu_throttle'', intensity = 0.5, target_component = ''system'',
          estimated_savings = 10, performance_impact = 0.3, confidence = conf\<rparr>,
         \<lparr>action_type = ''brightness_adjust'', intensity = 0.5, target_component = ''display'',
          estimated_savings = 8, performance_impact = 0.2, confidence = conf\<rparr>]
      ([\<lparr>action_type = ''brightness_adjust'', intensity = 0.8, target_component = ''display'',
          estimated_savings = 20, performance_impact = 0.3, confidence = 0.9\<rparr>,
         \<lparr>action_type = ''cpu_throttle'', intensity = 0.7, target_component = ''system'',
          estimated_savings = 25, performance_impact = 0.6, confidence = 0.85\<rparr>] @ extra))
    = [(''cpu_throttle'', 0.5), (''brightness_adjust'', 0.5)]
        @ map (\<lambda>a. (action_type a, intensity a)) extra"
  using assms by (auto simp: combine_eval)

lemma scenario_class_3:
  assumes "extra = [] \<or> extra =
        [\<lparr>action_type = ''background_limit'', intensity = 0.5, target_component = ''system'',
          estimated_savings = 8, performance_impact = 0.1, confidence = 0.7\<rparr>]"
    and "app = [] \<or> app =
        [\<lparr>action_type = ''app_throttle'', intensity = 0.6, target_component = ''target_app'',
          estimated_savings = 12, performance_impact = 0.5, confidence = conf\<rparr>]"
  shows "map (\<lambda>a. (action_type a, intensity a)) (combine_actions
      ([\<lparr>action_type = ''cpu_throttle'', intensity = 0.8, target_component = ''system'',
          estimated_savings = 20, performance_impact = 0.6, confidence = conf\<rparr>,
         \<lparr>action_type = ''brightness_adjust'', intensity = 0.7, target_component = ''display'',
          estimated_savings = 15, performance_impact = 0.4, confidence = conf\<rparr>] @ app)
      ([\<lparr>action_type = ''brightness_adjust'', intensity = 0.8, target_component = ''display'',
          estimated_savings = 20, performance_impact = 0.3, confidence = 0.9\<rparr>,
         \<lparr>action_type = ''cpu_throttle'', intensity = 0.7, target_component = ''system'',
          estimated_savings = 25, performance_impact = 0.6, confidence = 0.85\<rparr>] @ extra))
    = [(''cpu_throttle'', 0.7), (''brightness_adjust'', 0.7)]
        @ map (\<lambda>a. (action_type a, intensity a)) (app @ extra)"
  using assms by (auto simp: combine_eval)

text \<open>The scenario property only reads the kinds and the intensities.\<close>

lemma scenario_holds_map:
  "scenario_holds b c actions \<longleftrightarrow>
     2 \<le> length (map (\<lambda>a. (action_type a, intensity a)) actions)
   \<and> list_ex (\<lambda>p. fst p = ''brightness_adjust'' \<and> b \<le> snd p)
       (map (\<lambda>a. (action_type a, intensity a)) actions)
   \<and> list_ex (\<lambda>p. fst p = ''cpu_throttle'' \<and> c \<le> snd p)
       (map (\<lambda>a. (action_type a, intensity a)) actions)"
  by (simp add: scenario_holds_def list_ex_iff)

text \<open>
  Claim C8, as amended. For a snapshot with battery 8, CPU 80 and brightness 95 the full
  decision (classifier tier, rule tier and merge) returns at least two actions, among
  them a brightness action and a CPU action. Both have intensity at least 0.7 when the
  classifier contributes nothing or predicts a class other than 1 and 2. When it predicts
  class 1 or 2 its milder templates win the merge (the lower intensity is kept), and the
  bounds are 0.3 for the brightness action and 0.5 for the CPU action; the bound 0.7
  then fails.
\<close>

theorem critical_scenario_decision:
  assumes "battery_percent m = 8" and "cpu_percent m = 80" and "screen_brightness m = 95"
  shows "scenario_holds 0.3 0.5 (fst (decide_optimization clk m agent))
       \<and> (classifier_class clk m agent \<noteq> Some 1 \<and> classifier_class clk m agent \<noteq> Some 2 \<longrightarrow>
            scenario_holds 0.7 0.7 (fst (decide_optimization clk m agent)))
       \<and> (classifier_class clk m agent = Some 1 \<or> classifier_class clk m agent = Some 2 \<longrightarrow>
            \<not> scenario_holds 0.7 0.7 (fst (decide_optimization clk m agent)))"
proof -
  let ?ctx = "analyze_context (context_hour clk) m"
  let ?ml = "if model_trained agent then ml_decision clk agent m ?ctx else []"
  from critical_rule_actions [OF assms, of "context_hour clk"] obtain extra where
    rules: "get_rule_based_actions m ?ctx =
        [\<lparr>action_type = ''brightness_adjust'', intensity = 0.8, target_component = ''display'',
          estimated_savings = 20, performance_impact = 0.3, confidence = 0.9\<rparr>,
         \<lparr>action_type = ''cpu_throttle'', intensity = 0.7, target_component = ''system'',
          estimated_savings = 25, performance_impact = 0.6, confidence = 0.85\<rparr>] @ extra"
    and extra: "extra = [] \<or> extra =
        [\<lparr>action_type = ''background_limit'', intensity = 0.5, target_component = ''system'',
          estimated_savings = 8, performance_impact = 0.1, confidence = 0.7\<rparr>]"
    by blast
  have res: "fst (decide_optimization clk m agent) =
               combine_actions ?ml (get_rule_based_actions m ?ctx)"
    by (simp add: decide_optimization_def Let_def)
  have extra_kinds: "map (\<lambda>a. (action_type a, intensity a)) extra = []
      \<or> map (\<lambda>a. (action_type a, intensity a)) extra = [(''background_limit'', 0.5)]"
    using extra by auto
  consider (none) "classifier_class clk m agent = None"
    | (some) p where "classifier_class clk m agent = Some p"
    by (cases "classifier_class clk m agent") auto
  then show ?thesis
  proof cases
    case none
    then have "?ml = []"
      by (auto simp: classifier_class_def ml_decision_def split: if_splits option.splits)
    with scenario_no_classifier [OF extra] have hi: "scenario_holds 0.7 0.7
        (fst (decide_optimization clk m agent))"
      by (simp add: res rules)
    then have "scenario_holds 0.3 0.5 (fst (decide_optimization clk m agent))"
      by (auto simp: scenario_holds_def list_ex_iff)
    with hi none show ?thesis by simp
  next
    case (some p)
    then obtain conf where trained: "model_trained agent"
      and model: "decision_model agent (extract_features (feature_hour clk) m) = Some (p, conf)"
      by (auto simp: classifier_class_def split: if_splits)
    have ml: "?ml = prediction_to_actions p conf m ?ctx"
      by (simp add: trained model ml_decision_def)
    consider (c1) "p = 1" | (c2) "p = 2" | (c3) "p = 3" | (other) "p \<noteq> 1 \<and> p \<noteq> 2 \<and> p \<noteq> 3"
      by blast
    then show ?thesis
    proof cases
      case c1
      have "map (\<lambda>a. (action_type a, intensity a)) (fst (decide_optimization clk m agent))
          = [(''brightness_adjust'', 0.3), (''cpu_throttle'', 0.7)]
              @ map (\<lambda>a. (action_type a, intensity a)) extra"
        using scenario_class_1 [OF extra, of conf]
        by (simp add: res rules ml c1 critical_ml_actions [OF assms(2,3)])
      with extra_kinds some c1 show ?thesis
        by (auto simp: scenario_holds_map)
    next
      case c2
      have "map (\<lambda>a. (action_type a, intensity a)) (fst (decide_optimization clk m agent))
          = [(''cpu_throttle'', 0.5), (''brightness_adjust'', 0.5)]
              @ map (\<lambda>a. (action_type a, intensity a)) extra"
        using scenario_class_2 [OF extra, of conf]
        by (simp add: res rules ml c2 critical_ml_actions [OF assms(2,3)])
      with extra_kinds some c2 show ?thesis
        by (auto simp: scenario_holds_map)
    next
      case c3
      define app where "app = (if app_priority ?ctx \<noteq> ''critical'' then
           [\<lparr>action_type = ''app_throttle'', intensity = 0.6, target_component = ''target_app'',
             estimated_savings = 12, performance_impact = 0.5, confidence = conf\<rparr>]
         else [])"
      have app: "app = [] \<or> app =
        [\<lparr>action_type = ''app_throttle'', intensity = 0.6, target_component = ''target_app'',
          estimated_savings = 12, performance_impact = 0.5, confidence = conf\<rparr>]"
        by (simp add: app_def)
      have mlp: "prediction_to_actions p conf m ?ctx =
         [\<lparr>action_type = ''cpu_throttle'', intensity = 0.8, target_component = ''system'',
          estimated_savings = 20, performance_impact = 0.6, confidence = conf\<rparr>,
         \<lparr>action_type = ''brightness_adjust'', intensity = 0.7, target_component = ''display'',
          estimated_savings = 15, performance_impact = 0.4, confidence = conf\<rparr>] @ app"
        by (simp add: c3 critical_ml_actions [OF assms(2,3)] app_def)
      have "map (\<lambda>a. (action_type a, intensity a)) (fst (decide_optimization clk m agent))
          = [(''cpu_throttle'', 0.7), (''brightness_adjust'', 0.7)]
              @ map (\<lambda>a. (action_type a, intensity a)) (app @ extra)"
        using scenario_class_3 [OF extra app]
        by (simp only: res rules ml mlp)
      with some c3 show ?thesis
        by (auto simp: scenario_holds_map)
    next
      case other
      then have "?ml = []"
        by (simp add: ml critical_ml_actions [OF assms(2,3)])
      with scenario_no_classifier [OF extra] have hi: "scenario_holds 0.7 0.7
          (fst (decide_optimization clk m agent))"
        by (simp add: res rules)
      then have "scenario_holds 0.3 0.5 (fst (decide_optimization clk m agent))"
        by (auto simp: scenario_holds_def list_ex_iff)
      with hi some other show ?thesis by simp
    qed
  qed
qed

theorem critical_scenario_decision_witness:
  "battery_percent critical_metrics = 8 \<and> cpu_percent critical_metrics = 80
 \<and> screen_brightness critical_metrics = 95
 \<and> classifier_class sample_clock critical_metrics (agent_of_class 3) \<noteq> Some 1
 \<and> classifier_class sample_clock critical_metrics (agent_of_class 3) \<noteq> Some 2
 \<and> scenario_holds 0.7 0.7
      (fst (decide_optimization sample_clock critical_metrics (agent_of_class 3)))
 \<and> classifier_class sample_clock critical_metrics (agent_of_class 2) = Some 2
 \<and> scenario_holds 0.3 0.5
      (fst (decide_optimization sample_clock critical_metrics (agent_of_class 2)))
 \<and> \<not> scenario_holds 0.7 0.7
      (fst (decide_optimization sample_clock critical_metrics (agent_of_class 2)))"
proof -
  have m: "battery_percent critical_metrics = 8" "cpu_percent critical_metrics = 80"
    "screen_brightness critical_metrics = 95"
    by (simp_all add: critical_metrics_def)
  have c: "classifier_class sample_clock critical_metrics (agent_of_class 3) = Some 3"
    "classifier_class sample_clock critical_metrics (agent_of_class 2) = Some 2"
    by (simp_all add: classifier_class_def agent_of_class_def)
  show ?thesis
    using m c
      critical_scenario_decision [OF m, of sample_clock "agent_of_class 3"]
      critical_scenario_decision [OF m, of sample_clock "agent_of_class 2"]
    by simp
qed

text \<open>The claim as stated fails on the snapshot of \<open>quick_test.py\<close> when the classifier
  predicts class 1: the merged brightness action is the classifier's, of intensity
  0.3.\<close>

theorem critical_scenario_counterexample:
  "battery_percent critical_metrics = 8 \<and> cpu_percent critical_metrics = 80
 \<and> screen_brightness critical_metrics = 95
 \<and> fst (decide_optimization sample_clock critical_metrics (agent_of_class 1)) =
      [\<lparr>action_type = ''brightness_adjust'', intensity = 0.3, target_component = ''display'',
        estimated_savings = 5, performance_impact = 0.1, confidence = 0.9\<rparr>,
       \<lparr>action_type = ''cpu_throttle'', intensity = 0.7, target_component = ''system'',
        estimated_savings = 25, performance_impact = 0.6, confidence = 0.85\<rparr>]
 \<and> \<not> scenario_holds 0.7 0.7
      (fst (decide_optimization sample_clock critical_metrics (agent_of_class 1)))"
proof -
  have r: "fst (decide_optimization sample_clock critical_metrics (agent_of_class 1)) =
      [\<lparr>action_type = ''brightness_adjust'', intensity = 0.3, target_component = ''display'',
        estimated_savings = 5, performance_impact = 0.1, confidence = 0.9\<rparr>,
       \<lparr>action_type = ''cpu_throttle'', intensity = 0.7, target_component = ''system'',
        estimated_savings = 25, performance_impact = 0.6, confidence = 0.85\<rparr>]"
    by (simp add: decide_optimization_def analyze_context_def get_rule_based_actions_def
          critical_battery_rules_def performance_rules_def ml_decision_def
          prediction_to_actions_def agent_of_class_def critical_metrics_def sample_clock_def
          combine_actions_def ml_step_def rule_step_def action_key_def Let_def)
  show ?thesis
    by (simp add: r scenario_holds_def) (simp add: critical_metrics_def)
qed

end
